theory Spec2Isabelle
  imports Main
begin

section \<open>Encrypted key-pair lifecycle of \<^verbatim>\<open>pkg/cosign/keys.go\<close>\<close>

text \<open>
  The Go file generates, imports, encrypts and reloads signing keys. Every function of
  the file is embedded below, statement by statement. A Go result \<^verbatim>\<open>(v, err)\<close> is a
  pair whose second component is \<open>None\<close> for a nil error; a pointer or interface
  result that may be nil is an \<open>option\<close>. A run-time panic is a value of its own.

  Everything the file imports (\<^verbatim>\<open>encoding/pem\<close>, \<^verbatim>\<open>crypto/x509\<close>, the
  password-based box of go-tuf, the sigstore signers, the file system) is a field of
  the record \<open>lib\<close>, which every function takes as its first argument. What a theorem
  needs to know of such a package is a named contract on that record.
\<close>

subsection \<open>Bytes and errors\<close>

type_synonym bytes = string

text \<open>
  Go errors: \<^verbatim>\<open>errors.New\<close> of github.com/pkg/errors, \<^verbatim>\<open>fmt.Errorf\<close>, and the
  annotation added by \<^verbatim>\<open>errors.Wrap\<close>. Errors of the imported packages are values of
  the same type.
\<close>

datatype error =
    fundamental string
  | errorString string
  | withMessage error string

fun Error :: "error \<Rightarrow> string" where
  "Error (fundamental msg) = msg"
| "Error (errorString msg) = msg"
| "Error (withMessage cause msg) = msg @ '': '' @ Error cause"

definition errors_New :: "string \<Rightarrow> error" where
  "errors_New msg = fundamental msg"

text \<open>
  \<^verbatim>\<open>fmt.Errorf\<close> is only called with the verbs \<^verbatim>\<open>%s\<close> and \<^verbatim>\<open>%T\<close> on strings, so
  its argument here is the formatted message.
\<close>

definition fmt_Errorf :: "string \<Rightarrow> error" where
  "fmt_Errorf msg = errorString msg"

text \<open>
  \<^verbatim>\<open>errors.Wrap(err, msg)\<close>: ``If err is nil, Wrap returns nil.''
\<close>

fun errors_Wrap :: "error option \<Rightarrow> string \<Rightarrow> error option" where
  "errors_Wrap None msg = None"
| "errors_Wrap (Some err) msg = Some (withMessage err msg)"

subsection \<open>Keys\<close>

text \<open>
  The Go key structs: a private key embeds its public key, and \<^verbatim>\<open>Public()\<close>
  returns that embedded field.
\<close>

record rsa_PublicKey =
  rsa_N :: int
  rsa_E :: int

record rsa_PrivateKey =
  rsa_PublicKey :: rsa_PublicKey
  rsa_D :: int
  rsa_Primes :: "int list"

record ecdsa_PublicKey =
  ecdsa_Curve :: string
  ecdsa_X :: int
  ecdsa_Y :: int

record ecdsa_PrivateKey =
  ecdsa_PublicKey :: ecdsa_PublicKey
  ecdsa_D :: int

text \<open>
  \<^verbatim>\<open>crypto.PrivateKey\<close> and \<^verbatim>\<open>crypto.PublicKey\<close> are empty interfaces; the dynamic
  types are those \<^verbatim>\<open>x509.ParsePKCS8PrivateKey\<close> documents.
\<close>

datatype crypto_PrivateKey =
    RSA_PrivateKey rsa_PrivateKey
  | ECDSA_PrivateKey ecdsa_PrivateKey
  | Ed25519_PrivateKey bytes
  | ECDH_PrivateKey bytes

datatype crypto_PublicKey =
    RSA_PublicKey rsa_PublicKey
  | ECDSA_PublicKey ecdsa_PublicKey
  | Ed25519_PublicKey bytes
  | ECDH_PublicKey bytes

definition rsa_Public :: "rsa_PrivateKey \<Rightarrow> crypto_PublicKey" where
  "rsa_Public pk = RSA_PublicKey (rsa_PublicKey pk)"

definition ecdsa_Public :: "ecdsa_PrivateKey \<Rightarrow> crypto_PublicKey" where
  "ecdsa_Public pk = ECDSA_PublicKey (ecdsa_PublicKey pk)"

text \<open>The names of the dynamic types, as the verb \<^verbatim>\<open>%T\<close> and a panic print them.\<close>

fun typeName :: "crypto_PublicKey \<Rightarrow> string" where
  "typeName (RSA_PublicKey _) = ''*rsa.PublicKey''"
| "typeName (ECDSA_PublicKey _) = ''*ecdsa.PublicKey''"
| "typeName (Ed25519_PublicKey _) = ''ed25519.PublicKey''"
| "typeName (ECDH_PublicKey _) = ''*ecdh.PublicKey''"

fun privateTypeName :: "crypto_PrivateKey \<Rightarrow> string" where
  "privateTypeName (RSA_PrivateKey _) = ''*rsa.PrivateKey''"
| "privateTypeName (ECDSA_PrivateKey _) = ''*ecdsa.PrivateKey''"
| "privateTypeName (Ed25519_PrivateKey _) = ''ed25519.PrivateKey''"
| "privateTypeName (ECDH_PrivateKey _) = ''*ecdh.PrivateKey''"

datatype crypto_Hash = SHA256

subsection \<open>The imported packages\<close>

record pem_Block =
  Type :: string
  Headers :: "(string \<times> string) list"
  Bytes :: bytes

text \<open>
  \<open>'e\<close> and \<open>'r\<close> are the types \<^verbatim>\<open>signature.ECDSASignerVerifier\<close> and
  \<^verbatim>\<open>signature.RSAPKCS1v15SignerVerifier\<close>. The functions that read
  \<^verbatim>\<open>crypto/rand\<close> take the bytes they read as their first argument.
\<close>

type_synonym entropy = bytes

record ('e, 'r) lib =
  filepath_Clean :: "string \<Rightarrow> string"
  os_ReadFile :: "string \<Rightarrow> bytes \<times> error option"
  pem_Decode :: "bytes \<Rightarrow> pem_Block option \<times> bytes"
  pem_EncodeToMemory :: "pem_Block \<Rightarrow> bytes"
  x509_ParsePKCS1PrivateKey :: "bytes \<Rightarrow> rsa_PrivateKey \<times> error option"
  x509_ParseECPrivateKey :: "bytes \<Rightarrow> ecdsa_PrivateKey \<times> error option"
  x509_MarshalPKCS8PrivateKey :: "crypto_PrivateKey \<Rightarrow> bytes \<times> error option"
  x509_ParsePKCS8PrivateKey :: "bytes \<Rightarrow> crypto_PrivateKey \<times> error option"
  encrypted_Encrypt :: "entropy \<Rightarrow> bytes \<Rightarrow> bytes \<Rightarrow> bytes \<times> error option"
  encrypted_Decrypt :: "bytes \<Rightarrow> bytes \<Rightarrow> bytes \<times> error option"
  cryptoutils_MarshalPublicKeyToPEM :: "crypto_PublicKey \<Rightarrow> bytes \<times> error option"
  cryptoutils_UnmarshalPEMToPublicKey :: "bytes \<Rightarrow> crypto_PublicKey \<times> error option"
  ecdsa_GenerateKey :: "string \<Rightarrow> entropy \<Rightarrow> ecdsa_PrivateKey \<times> error option"
  signature_LoadECDSASignerVerifier ::
    "ecdsa_PrivateKey \<Rightarrow> crypto_Hash \<Rightarrow> 'e option \<times> error option"
  signature_LoadRSAPKCS1v15SignerVerifier ::
    "rsa_PrivateKey \<Rightarrow> crypto_Hash \<Rightarrow> 'r option \<times> error option"
  ecdsa_SignMessage :: "'e \<Rightarrow> entropy \<Rightarrow> bytes \<Rightarrow> bytes \<times> error option"
  ecdsa_VerifySignature :: "ecdsa_PublicKey \<Rightarrow> crypto_Hash \<Rightarrow> bytes \<Rightarrow> bytes \<Rightarrow> error option"

subsection \<open>Constants and types of the file\<close>

definition PrivateKeyPemType :: string where
  "PrivateKeyPemType = ''ENCRYPTED COSIGN PRIVATE KEY''"

definition RSAPrivateKeyPemType :: string where
  "RSAPrivateKeyPemType = ''RSA PRIVATE KEY''"

definition ECPrivateKeyPemType :: string where
  "ECPrivateKeyPemType = ''EC PRIVATE KEY''"

text \<open>
  The passphrase callback may prompt a user: it reads and changes a world \<open>'w\<close> that
  the functions calling it pass on.
\<close>

type_synonym 'w PassFunc = "bool \<Rightarrow> 'w \<Rightarrow> (bytes \<times> error option) \<times> 'w"

text \<open>
  The fields \<^verbatim>\<open>private\<close> and \<^verbatim>\<open>public\<close> of \<^verbatim>\<open>Key\<close> carry the struct's name
  here.
\<close>

record Key =
  Key_private :: crypto_PrivateKey
  Key_public :: crypto_PublicKey

record Keys =
  PrivateBytes :: bytes
  PublicBytes :: bytes
  password :: bytes

text \<open>
  What a call of a loader does: it returns its two results, or it panics. The
  interface \<^verbatim>\<open>signature.SignerVerifier\<close> holds a pointer of one of two types.
\<close>

datatype 'a outcome = Return 'a "error option" | Panic string

datatype ('e, 'r) SignerVerifier =
    ECDSASignerVerifier "'e option"
  | RSAPKCS1v15SignerVerifier "'r option"

subsection \<open>Generating, importing and encoding\<close>

definition elliptic_P256 :: string where
  "elliptic_P256 = ''P-256''"

definition GeneratePrivateKey :: "('e, 'r) lib \<Rightarrow> entropy \<Rightarrow> ecdsa_PrivateKey \<times> error option" where
  "GeneratePrivateKey L rnd = ecdsa_GenerateKey L elliptic_P256 rnd"

definition MarshallKeyPair ::
  "('e, 'r) lib \<Rightarrow> Key \<Rightarrow> 'w PassFunc \<Rightarrow> entropy \<Rightarrow> 'w \<Rightarrow> (Keys option \<times> error option) \<times> 'w"
where
  "MarshallKeyPair L keypair pf rnd w =
     (case x509_MarshalPKCS8PrivateKey L (Key_private keypair) of (x509Encoded, err) \<Rightarrow>
        if err \<noteq> None then ((None, errors_Wrap err ''x509 encoding private key''), w)
        else case pf True w of ((password', err), w') \<Rightarrow>
          if err \<noteq> None then ((None, err), w')
          else case encrypted_Encrypt L rnd x509Encoded password' of (encBytes, err) \<Rightarrow>
            if err \<noteq> None then ((None, err), w')
            else let privBytes = pem_EncodeToMemory L
                       \<lparr>Type = PrivateKeyPemType, Headers = [], Bytes = encBytes\<rparr>
              in case cryptoutils_MarshalPublicKeyToPEM L (Key_public keypair) of
                (pubBytes, err) \<Rightarrow>
                  if err \<noteq> None then ((None, err), w')
                  else ((Some \<lparr>PrivateBytes = privBytes, PublicBytes = pubBytes,
                               password = password'\<rparr>, None), w'))"

definition ImportKeyPair ::
  "('e, 'r) lib \<Rightarrow> string \<Rightarrow> 'w PassFunc \<Rightarrow> entropy \<Rightarrow> 'w \<Rightarrow> (Keys option \<times> error option) \<times> 'w"
where
  "ImportKeyPair L keyPath pf rnd w =
     (case os_ReadFile L (filepath_Clean L keyPath) of (kb, err) \<Rightarrow>
        if err \<noteq> None then ((None, err), w)
        else case fst (pem_Decode L kb) of
          None \<Rightarrow> ((None, Some (errors_New ''invalid pem block'')), w)
        | Some p \<Rightarrow>
            if Type p \<noteq> RSAPrivateKeyPemType \<and> Type p \<noteq> ECPrivateKeyPemType
            then ((None, Some (fmt_Errorf (''unsupported pem type: '' @ Type p))), w)
            else if Type p = RSAPrivateKeyPemType
            then case x509_ParsePKCS1PrivateKey L (Bytes p) of (pk, err) \<Rightarrow>
              if err \<noteq> None then ((None, Some (fmt_Errorf ''parsing error'')), w)
              else MarshallKeyPair L
                     \<lparr>Key_private = RSA_PrivateKey pk, Key_public = rsa_Public pk\<rparr> pf rnd w
            else case x509_ParseECPrivateKey L (Bytes p) of (pk, err) \<Rightarrow>
              if err \<noteq> None then ((None, Some (fmt_Errorf ''parsing error'')), w)
              else MarshallKeyPair L
                     \<lparr>Key_private = ECDSA_PrivateKey pk, Key_public = ecdsa_Public pk\<rparr> pf rnd w)"

text \<open>
  \<^verbatim>\<open>GenerateKeyPair\<close> reads the random source twice: \<open>rk\<close> for the key, \<open>rnd\<close> for
  the encryption.
\<close>

definition GenerateKeyPair ::
  "('e, 'r) lib \<Rightarrow> 'w PassFunc \<Rightarrow> entropy \<Rightarrow> entropy \<Rightarrow> 'w \<Rightarrow> (Keys option \<times> error option) \<times> 'w"
where
  "GenerateKeyPair L pf rk rnd w =
     (case GeneratePrivateKey L rk of (priv, err) \<Rightarrow>
        if err \<noteq> None then ((None, err), w)
        else case x509_MarshalPKCS8PrivateKey L (ECDSA_PrivateKey priv) of (x509Encoded, err) \<Rightarrow>
          if err \<noteq> None then ((None, errors_Wrap err ''x509 encoding private key''), w)
          else case pf True w of ((password', err), w') \<Rightarrow>
            if err \<noteq> None then ((None, err), w')
            else case encrypted_Encrypt L rnd x509Encoded password' of (encBytes, err) \<Rightarrow>
              if err \<noteq> None then ((None, err), w')
              else let privBytes = pem_EncodeToMemory L
                         \<lparr>Type = PrivateKeyPemType, Headers = [], Bytes = encBytes\<rparr>
                in case cryptoutils_MarshalPublicKeyToPEM L
                          (ECDSA_PublicKey (ecdsa_PublicKey priv)) of
                  (pubBytes, err) \<Rightarrow>
                    if err \<noteq> None then ((None, err), w')
                    else ((Some \<lparr>PrivateBytes = privBytes, PublicBytes = pubBytes,
                                 password = password'\<rparr>, None), w'))"

definition Password :: "Keys \<Rightarrow> bytes" where
  "Password k = password k"

definition PemToECDSAKey :: "('e, 'r) lib \<Rightarrow> bytes \<Rightarrow> ecdsa_PublicKey option \<times> error option" where
  "PemToECDSAKey L pemBytes =
     (case cryptoutils_UnmarshalPEMToPublicKey L pemBytes of (pub, err) \<Rightarrow>
        if err \<noteq> None then (None, err)
        else case pub of
          ECDSA_PublicKey ecdsaPub \<Rightarrow> (Some ecdsaPub, None)
        | _ \<Rightarrow> (None, Some (fmt_Errorf (''invalid public key: was '' @ typeName pub
                     @ '', require *ecdsa.PublicKey''))))"

subsection \<open>Loading\<close>

definition LoadECDSAPrivateKey :: "('e, 'r) lib \<Rightarrow> bytes \<Rightarrow> bytes \<Rightarrow> 'e option outcome" where
  "LoadECDSAPrivateKey L key pass =
     (case fst (pem_Decode L key) of
        None \<Rightarrow> Return None (Some (errors_New ''invalid pem block''))
      | Some p \<Rightarrow>
          if Type p \<noteq> PrivateKeyPemType
          then Return None (Some (fmt_Errorf (''unsupported pem type: '' @ Type p)))
          else case encrypted_Decrypt L (Bytes p) pass of (x509Encoded, err) \<Rightarrow>
            if err \<noteq> None then Return None (errors_Wrap err ''decrypt'')
            else case x509_ParsePKCS8PrivateKey L x509Encoded of (pk, err) \<Rightarrow>
              if err \<noteq> None then Return None (errors_Wrap err ''parsing private key'')
              else case pk of
                ECDSA_PrivateKey epk \<Rightarrow>
                  (case signature_LoadECDSASignerVerifier L epk SHA256 of
                     (sv, err) \<Rightarrow> Return sv err)
              | _ \<Rightarrow> Return None (Some (errors_New ''invalid private key'')))"

text \<open>
  The type assertion \<^verbatim>\<open>pk.(*rsa.PrivateKey)\<close> of \<^verbatim>\<open>LoadRSAPrivateKey\<close> has one
  result: it panics on any other dynamic type.
\<close>

definition LoadRSAPrivateKey :: "('e, 'r) lib \<Rightarrow> bytes \<Rightarrow> bytes \<Rightarrow> 'r option outcome" where
  "LoadRSAPrivateKey L key pass =
     (case fst (pem_Decode L key) of
        None \<Rightarrow> Return None (Some (errors_New ''invalid pem block''))
      | Some p \<Rightarrow>
          if Type p \<noteq> PrivateKeyPemType
          then Return None (Some (fmt_Errorf (''unsupported pem type: '' @ Type p)))
          else case encrypted_Decrypt L (Bytes p) pass of (x509Encoded, err) \<Rightarrow>
            if err \<noteq> None then Return None (errors_Wrap err ''decrypt'')
            else case x509_ParsePKCS8PrivateKey L x509Encoded of (pk, err) \<Rightarrow>
              if err \<noteq> None then Return None (errors_Wrap err ''parsing private key'')
              else case pk of
                RSA_PrivateKey rpk \<Rightarrow>
                  (case signature_LoadRSAPKCS1v15SignerVerifier L rpk SHA256 of
                     (sv, err) \<Rightarrow> Return sv err)
              | _ \<Rightarrow> Panic (''interface conversion: interface {} is '' @ privateTypeName pk
                     @ '', not *rsa.PrivateKey''))"

text \<open>
  \<^verbatim>\<open>LoadPrivateKey\<close> returns what the specific loader returns, its pointer stored in
  the interface (so the interface itself is not nil), and panics where that loader does.
\<close>

fun asSignerVerifier ::
  "('a option \<Rightarrow> ('e, 'r) SignerVerifier) \<Rightarrow> 'a option outcome \<Rightarrow> ('e, 'r) SignerVerifier option outcome"
where
  "asSignerVerifier dyn (Return sv err) = Return (Some (dyn sv)) err"
| "asSignerVerifier dyn (Panic msg) = Panic msg"

definition LoadPrivateKey ::
  "('e, 'r) lib \<Rightarrow> bytes \<Rightarrow> bytes \<Rightarrow> ('e, 'r) SignerVerifier option outcome"
where
  "LoadPrivateKey L key pass =
     (case fst (pem_Decode L key) of
        None \<Rightarrow> Return None (Some (errors_New ''invalid pem block''))
      | Some p \<Rightarrow>
          if Type p \<noteq> PrivateKeyPemType
          then Return None (Some (fmt_Errorf (''unsupported pem type: '' @ Type p)))
          else case encrypted_Decrypt L (Bytes p) pass of (x509Encoded, err) \<Rightarrow>
            if err \<noteq> None then Return None (errors_Wrap err ''decrypt'')
            else case x509_ParsePKCS8PrivateKey L x509Encoded of (pk, err) \<Rightarrow>
              if err \<noteq> None then Return None (errors_Wrap err ''parsing private key'')
              else case pk of
                RSA_PrivateKey _ \<Rightarrow>
                  asSignerVerifier RSAPKCS1v15SignerVerifier (LoadRSAPrivateKey L key pass)
              | ECDSA_PrivateKey _ \<Rightarrow>
                  asSignerVerifier ECDSASignerVerifier (LoadECDSAPrivateKey L key pass)
              | _ \<Rightarrow> Return None (errors_Wrap err ''loading private key''))"

subsection \<open>Observing the callback\<close>

text \<open>
  \<open>recording pf\<close> behaves as \<open>pf\<close> and appends the argument of each call to a log
  that it keeps beside the world of \<open>pf\<close>.
\<close>

definition recording :: "'w PassFunc \<Rightarrow> (bool list \<times> 'w) PassFunc" where
  "recording pf b = (\<lambda>(calls, w). case pf b w of (r, w') \<Rightarrow> (r, (calls @ [b], w')))"

subsection \<open>Contracts of the imported packages\<close>

text \<open>
  Decoding an encoded block with the tag of the encrypted key gives its tag and payload
  back.
\<close>

definition pem_roundtrip :: "('e, 'r) lib \<Rightarrow> bool" where
  "pem_roundtrip L \<longleftrightarrow>
     (\<forall>b. \<exists>p. fst (pem_Decode L (pem_EncodeToMemory L
                 \<lparr>Type = PrivateKeyPemType, Headers = [], Bytes = b\<rparr>)) = Some p
            \<and> Type p = PrivateKeyPemType \<and> Bytes p = b)"

text \<open>Decrypting under the passphrase of the encryption gives the plaintext back.\<close>

definition decrypt_encrypt :: "('e, 'r) lib \<Rightarrow> bool" where
  "decrypt_encrypt L \<longleftrightarrow>
     (\<forall>rnd x pw enc. encrypted_Encrypt L rnd x pw = (enc, None)
        \<longrightarrow> encrypted_Decrypt L enc pw = (x, None))"

text \<open>Parsing the PKCS#8 encoding of an elliptic-curve key gives the key back.\<close>

definition pkcs8_roundtrip :: "('e, 'r) lib \<Rightarrow> bool" where
  "pkcs8_roundtrip L \<longleftrightarrow>
     (\<forall>k der. x509_MarshalPKCS8PrivateKey L (ECDSA_PrivateKey k) = (der, None)
        \<longrightarrow> x509_ParsePKCS8PrivateKey L der = (ECDSA_PrivateKey k, None))"

text \<open>Parsing the PEM of a public key gives the public key back.\<close>

definition public_pem_roundtrip :: "('e, 'r) lib \<Rightarrow> bool" where
  "public_pem_roundtrip L \<longleftrightarrow>
     (\<forall>pub pemBytes. cryptoutils_MarshalPublicKeyToPEM L pub = (pemBytes, None)
        \<longrightarrow> cryptoutils_UnmarshalPEMToPublicKey L pemBytes = (pub, None))"

text \<open>
  A generated key loads into a signer for SHA-256, and what that signer signs verifies
  under the public key of the generated key.
\<close>

definition ecdsa_signer_correct :: "('e, 'r) lib \<Rightarrow> bool" where
  "ecdsa_signer_correct L \<longleftrightarrow>
     (\<forall>rk k. ecdsa_GenerateKey L elliptic_P256 rk = (k, None) \<longrightarrow>
        (\<exists>sv. signature_LoadECDSASignerVerifier L k SHA256 = (Some sv, None)
           \<and> (\<forall>rnd msg sig. ecdsa_SignMessage L sv rnd msg = (sig, None)
                \<longrightarrow> ecdsa_VerifySignature L (ecdsa_PublicKey k) SHA256 sig msg = None)))"

subsection \<open>A small instance of the imported packages\<close>

text \<open>
  The instance frames a byte string by its length in unary, so that any payload can be
  framed and trailing data is left over; it knows one key of each algorithm.
\<close>

definition toy_frame :: "bytes \<Rightarrow> bytes" where
  "toy_frame b = replicate (length b) (CHR ''#'') @ CHR ''.'' # b"

definition toy_unframe :: "bytes \<Rightarrow> (bytes \<times> bytes) option" where
  "toy_unframe s =
     (let n = length (takeWhile (\<lambda>c. c = CHR ''#'') s);
          r = dropWhile (\<lambda>c. c = CHR ''#'') s
      in if r \<noteq> [] \<and> hd r = CHR ''.'' \<and> n \<le> length (tl r)
         then Some (take n (tl r), drop n (tl r)) else None)"

definition toy_pem_EncodeToMemory :: "pem_Block \<Rightarrow> bytes" where
  "toy_pem_EncodeToMemory blk = toy_frame (Type blk) @ toy_frame (Bytes blk)"

definition toy_pem_Decode :: "bytes \<Rightarrow> pem_Block option \<times> bytes" where
  "toy_pem_Decode s =
     (case toy_unframe s of
        None \<Rightarrow> (None, s)
      | Some (ty, r) \<Rightarrow>
          (case toy_unframe r of
             None \<Rightarrow> (None, s)
           | Some (b, rest) \<Rightarrow> (Some \<lparr>Type = ty, Headers = [], Bytes = b\<rparr>, rest)))"

definition toy_Encrypt :: "entropy \<Rightarrow> bytes \<Rightarrow> bytes \<Rightarrow> bytes \<times> error option" where
  "toy_Encrypt rnd x pw = (toy_frame pw @ x, None)"

definition toy_Decrypt :: "bytes \<Rightarrow> bytes \<Rightarrow> bytes \<times> error option" where
  "toy_Decrypt enc q =
     (case toy_unframe enc of
        None \<Rightarrow> ([], Some (errorString ''encrypted: decryption failed''))
      | Some (pw, x) \<Rightarrow>
          if pw = q then (x, None)
          else ([], Some (errorString ''encrypted: decryption failed'')))"

definition toy_ec :: ecdsa_PrivateKey where
  "toy_ec = \<lparr>ecdsa_PublicKey = \<lparr>ecdsa_Curve = ''P-256'', ecdsa_X = 1, ecdsa_Y = 2\<rparr>,
             ecdsa_D = 3\<rparr>"

definition toy_rsa :: rsa_PrivateKey where
  "toy_rsa = \<lparr>rsa_PublicKey = \<lparr>rsa_N = 33, rsa_E = 3\<rparr>, rsa_D = 7, rsa_Primes = [3, 11]\<rparr>"

definition toy_MarshalPKCS8PrivateKey :: "crypto_PrivateKey \<Rightarrow> bytes \<times> error option" where
  "toy_MarshalPKCS8PrivateKey k =
     (if k = ECDSA_PrivateKey toy_ec then (''ec'', None)
      else if k = RSA_PrivateKey toy_rsa then (''rsa'', None)
      else if k = Ed25519_PrivateKey ''seed'' then (''ed'', None)
      else ([], Some (errorString ''x509: unknown key type'')))"

definition toy_ParsePKCS8PrivateKey :: "bytes \<Rightarrow> crypto_PrivateKey \<times> error option" where
  "toy_ParsePKCS8PrivateKey der =
     (if der = ''ec'' then (ECDSA_PrivateKey toy_ec, None)
      else if der = ''rsa'' then (RSA_PrivateKey toy_rsa, None)
      else if der = ''ed'' then (Ed25519_PrivateKey ''seed'', None)
      else (Ed25519_PrivateKey [], Some (errorString ''x509: failed to parse private key'')))"

definition toy_MarshalPublicKeyToPEM :: "crypto_PublicKey \<Rightarrow> bytes \<times> error option" where
  "toy_MarshalPublicKeyToPEM pub =
     (if pub = ecdsa_Public toy_ec then (''pub-ec'', None)
      else if pub = rsa_Public toy_rsa then (''pub-rsa'', None)
      else if pub = Ed25519_PublicKey ''edpub'' then (''pub-ed'', None)
      else ([], Some (errorString ''unsupported public key type'')))"

definition toy_UnmarshalPEMToPublicKey :: "bytes \<Rightarrow> crypto_PublicKey \<times> error option" where
  "toy_UnmarshalPEMToPublicKey pemBytes =
     (if pemBytes = ''pub-ec'' then (ecdsa_Public toy_ec, None)
      else if pemBytes = ''pub-rsa'' then (rsa_Public toy_rsa, None)
      else if pemBytes = ''pub-ed'' then (Ed25519_PublicKey ''edpub'', None)
      else (Ed25519_PublicKey [], Some (errorString ''PEM decoding failed'')))"

definition toy_ReadFile :: "string \<Rightarrow> bytes \<times> error option" where
  "toy_ReadFile name =
     (if name = ''ec.pem''
      then (toy_pem_EncodeToMemory \<lparr>Type = ECPrivateKeyPemType, Headers = [], Bytes = ''ec1''\<rparr>,
            None)
      else if name = ''ec-more.pem''
      then (toy_pem_EncodeToMemory \<lparr>Type = ECPrivateKeyPemType, Headers = [], Bytes = ''ec1''\<rparr>
              @ ''trailing'', None)
      else if name = ''rsa.pem''
      then (toy_pem_EncodeToMemory \<lparr>Type = RSAPrivateKeyPemType, Headers = [], Bytes = ''rsa1''\<rparr>,
            None)
      else ([], Some (errorString ''open: no such file or directory'')))"

text \<open>
  The signer of the instance is the private key; a signature is the message behind a tag
  computed from the public key, and verifying recomputes the tag.
\<close>

definition toy_tag :: "ecdsa_PublicKey \<Rightarrow> bytes" where
  "toy_tag pub = replicate (nat (ecdsa_X pub)) (CHR ''x'') @ replicate (nat (ecdsa_Y pub)) (CHR ''y'')
                 @ '':''"


definition toyLib :: "(ecdsa_PrivateKey, rsa_PrivateKey) lib" where
  "toyLib =
     \<lparr>filepath_Clean = (\<lambda>name. name),
      os_ReadFile = toy_ReadFile,
      pem_Decode = toy_pem_Decode,
      pem_EncodeToMemory = toy_pem_EncodeToMemory,
      x509_ParsePKCS1PrivateKey =
        (\<lambda>der. if der = ''rsa1'' then (toy_rsa, None)
                else (toy_rsa, Some (errorString ''x509: failed to parse private key''))),
      x509_ParseECPrivateKey =
        (\<lambda>der. if der = ''ec1'' then (toy_ec, None)
                else (toy_ec, Some (errorString ''x509: failed to parse EC private key''))),
      x509_MarshalPKCS8PrivateKey = toy_MarshalPKCS8PrivateKey,
      x509_ParsePKCS8PrivateKey = toy_ParsePKCS8PrivateKey,
      encrypted_Encrypt = toy_Encrypt,
      encrypted_Decrypt = toy_Decrypt,
      cryptoutils_MarshalPublicKeyToPEM = toy_MarshalPublicKeyToPEM,
      cryptoutils_UnmarshalPEMToPublicKey = toy_UnmarshalPEMToPublicKey,
      ecdsa_GenerateKey = (\<lambda>curve rnd. (toy_ec, None)),
      signature_LoadECDSASignerVerifier = (\<lambda>k h. (Some k, None)),
      signature_LoadRSAPKCS1v15SignerVerifier = (\<lambda>k h. (Some k, None)),
      ecdsa_SignMessage = (\<lambda>sv rnd msg. (toy_tag (ecdsa_PublicKey sv) @ msg, None)),
      ecdsa_VerifySignature =
        (\<lambda>pub h sig msg. if sig = toy_tag pub @ msg then None
                          else Some (errorString ''invalid signature when validating ASN.1 encoded signature''))\<rparr>"

text \<open>A callback that answers every prompt with the same passphrase.\<close>

definition toy_pf :: "unit PassFunc" where
  "toy_pf b w = ((''correct-horse'', None), w)"

text \<open>A callback whose user cancels.\<close>

definition toy_cancel :: "unit PassFunc" where
  "toy_cancel b w = (([], Some (errorString ''cancelled'')), w)"

text \<open>The encrypted private key of the instance for a PKCS#8 encoding and a passphrase.\<close>

definition toy_bundle :: "bytes \<Rightarrow> bytes \<Rightarrow> bytes" where
  "toy_bundle der pw = toy_pem_EncodeToMemory
     \<lparr>Type = PrivateKeyPemType, Headers = [], Bytes = fst (toy_Encrypt [] der pw)\<rparr>"

text \<open>The same instance on a machine whose entropy source fails.\<close>

definition toyLib_no_entropy :: "(ecdsa_PrivateKey, rsa_PrivateKey) lib" where
  "toyLib_no_entropy = toyLib
     \<lparr>encrypted_Encrypt := (\<lambda>rnd x pw. ([], Some (errorString ''rand: entropy source failed'')))\<rparr>"

subsection \<open>Two variants of the instance\<close>

text \<open>
  The password box of go-tuf derives its key with scrypt, which keys an HMAC with the
  passphrase, and HMAC pads a key shorter than its block with zero bytes: a passphrase
  and the same passphrase followed by zero bytes derive the same key. \<open>nulLib\<close> is the
  instance with a box whose key is the passphrase without its trailing zero bytes.
\<close>

definition toy_key :: "bytes \<Rightarrow> bytes" where
  "toy_key pw = rev (dropWhile (\<lambda>c. c = CHR 0x00) (rev pw))"

definition nul_Encrypt :: "entropy \<Rightarrow> bytes \<Rightarrow> bytes \<Rightarrow> bytes \<times> error option" where
  "nul_Encrypt rnd x pw = (toy_frame (toy_key pw) @ x, None)"

definition nul_Decrypt :: "bytes \<Rightarrow> bytes \<Rightarrow> bytes \<times> error option" where
  "nul_Decrypt enc q =
     (case toy_unframe enc of
        None \<Rightarrow> ([], Some (errorString ''encrypted: decryption failed''))
      | Some (k, x) \<Rightarrow>
          if k = toy_key q then (x, None)
          else ([], Some (errorString ''encrypted: decryption failed'')))"

definition nulLib :: "(ecdsa_PrivateKey, rsa_PrivateKey) lib" where
  "nulLib = toyLib \<lparr>encrypted_Encrypt := nul_Encrypt, encrypted_Decrypt := nul_Decrypt\<rparr>"


text \<open>
  The decoder of \<^verbatim>\<open>encoding/pem\<close> accepts a block only when nothing but white space
  follows its END line on the same line; \<^verbatim>\<open>EncodeToMemory\<close> ends every block with a
  newline. \<open>strictLib\<close> is the instance with such a decoder and encoder: the framed
  payload must be followed by a blank rest of line, and the encoder appends the newline.
\<close>

definition line_end_blank :: "bytes \<Rightarrow> bool" where
  "line_end_blank rest =
     list_all (\<lambda>c. c = CHR '' '' \<or> c = CHR 0x09 \<or> c = CHR 0x0D)
       (takeWhile (\<lambda>c. c \<noteq> CHR 0x0A) rest)"

definition strict_pem_Decode :: "bytes \<Rightarrow> pem_Block option \<times> bytes" where
  "strict_pem_Decode s =
     (case toy_pem_Decode s of
        (None, rest) \<Rightarrow> (None, s)
      | (Some p, rest) \<Rightarrow>
          if line_end_blank rest
          then (Some p, drop 1 (dropWhile (\<lambda>c. c \<noteq> CHR 0x0A) rest))
          else (None, s))"

definition strict_pem_EncodeToMemory :: "pem_Block \<Rightarrow> bytes" where
  "strict_pem_EncodeToMemory blk = toy_pem_EncodeToMemory blk @ [CHR 0x0A]"

definition strict_ReadFile :: "string \<Rightarrow> bytes \<times> error option" where
  "strict_ReadFile name =
     (if name = ''ec-newline.pem''
      then (strict_pem_EncodeToMemory
              \<lparr>Type = ECPrivateKeyPemType, Headers = [], Bytes = ''ec1''\<rparr>, None)
      else if name = ''ec-newline-more.pem''
      then (strict_pem_EncodeToMemory
              \<lparr>Type = ECPrivateKeyPemType, Headers = [], Bytes = ''ec1''\<rparr> @ ''trailing'', None)
      else toy_ReadFile name)"

definition strictLib :: "(ecdsa_PrivateKey, rsa_PrivateKey) lib" where
  "strictLib = toyLib
     \<lparr>os_ReadFile := strict_ReadFile, pem_Decode := strict_pem_Decode,
        pem_EncodeToMemory := strict_pem_EncodeToMemory\<rparr>"

definition strict_bundle :: bytes where
  "strict_bundle = strict_pem_EncodeToMemory
     \<lparr>Type = PrivateKeyPemType, Headers = [],
        Bytes = fst (toy_Encrypt [] ''ec'' ''correct-horse'')\<rparr>"

section \<open>Facts about the instance\<close>

lemma takeWhile_run: "d \<noteq> a \<Longrightarrow> takeWhile (\<lambda>c. c = a) (replicate n a @ d # r) = replicate n a"
  by (induction n) simp_all

lemma dropWhile_run: "d \<noteq> a \<Longrightarrow> dropWhile (\<lambda>c. c = a) (replicate n a @ d # r) = d # r"
  by (induction n) simp_all

lemma toy_unframe_frame: "toy_unframe (toy_frame b @ t) = Some (b, t)"
  by (simp add: toy_unframe_def toy_frame_def takeWhile_run dropWhile_run)

lemma toy_pem_Decode_Encode:
  "toy_pem_Decode (toy_pem_EncodeToMemory blk @ t)
     = (Some \<lparr>Type = Type blk, Headers = [], Bytes = Bytes blk\<rparr>, t)"
  by (simp add: toy_pem_Decode_def toy_pem_EncodeToMemory_def toy_unframe_frame)

lemma toy_pem_Decode_Encode0:
  "toy_pem_Decode (toy_pem_EncodeToMemory blk)
     = (Some \<lparr>Type = Type blk, Headers = [], Bytes = Bytes blk\<rparr>, [])"
  using toy_pem_Decode_Encode [of blk "[]"] by simp

lemma toy_Decrypt_Encrypt:
  "toy_Encrypt rnd x pw = (enc, None) \<Longrightarrow> toy_Decrypt enc q =
     (if pw = q then (x, None) else ([], Some (errorString ''encrypted: decryption failed'')))"
  by (auto simp: toy_Decrypt_def toy_Encrypt_def toy_unframe_frame)

lemma toyLib_pem_roundtrip: "pem_roundtrip toyLib"
  by (simp add: pem_roundtrip_def toyLib_def toy_pem_Decode_Encode0)

lemma toyLib_decrypt_encrypt: "decrypt_encrypt toyLib"
  by (simp add: decrypt_encrypt_def toyLib_def toy_Decrypt_Encrypt)

lemma toyLib_pkcs8_roundtrip: "pkcs8_roundtrip toyLib"
  by (auto simp: pkcs8_roundtrip_def toyLib_def toy_MarshalPKCS8PrivateKey_def
      toy_ParsePKCS8PrivateKey_def split: if_splits)

lemma toyLib_public_pem_roundtrip: "public_pem_roundtrip toyLib"
  by (auto simp: public_pem_roundtrip_def toyLib_def toy_MarshalPublicKeyToPEM_def
      toy_UnmarshalPEMToPublicKey_def split: if_splits)

lemma toyLib_ecdsa_signer_correct: "ecdsa_signer_correct toyLib"
  by (simp add: ecdsa_signer_correct_def toyLib_def)

lemma toy_bundle_Decode:
  "fst (pem_Decode toyLib (toy_bundle der pw @ t))
     = Some \<lparr>Type = PrivateKeyPemType, Headers = [], Bytes = fst (toy_Encrypt [] der pw)\<rparr>"
  by (simp add: toy_bundle_def toyLib_def toy_pem_Decode_Encode)

lemma toy_bundle_Decrypt:
  "encrypted_Decrypt toyLib (fst (toy_Encrypt [] der pw)) q =
     (if pw = q then (der, None) else ([], Some (errorString ''encrypted: decryption failed'')))"
  by (simp add: toyLib_def toy_Decrypt_Encrypt [of "[]" der pw] toy_Encrypt_def)

lemma pem_types_distinct:
  "RSAPrivateKeyPemType \<noteq> PrivateKeyPemType"
  "ECPrivateKeyPemType \<noteq> PrivateKeyPemType"
  "RSAPrivateKeyPemType \<noteq> ECPrivateKeyPemType"
  by (simp_all add: RSAPrivateKeyPemType_def ECPrivateKeyPemType_def PrivateKeyPemType_def)

lemma toy_ReadFile_ec:
  "os_ReadFile toyLib (filepath_Clean toyLib ''ec.pem'')
     = (toy_pem_EncodeToMemory \<lparr>Type = ECPrivateKeyPemType, Headers = [], Bytes = ''ec1''\<rparr>, None)"
  by (simp add: toyLib_def toy_ReadFile_def)

lemma toy_ReadFile_ec_more:
  "os_ReadFile toyLib (filepath_Clean toyLib ''ec-more.pem'')
     = (toy_pem_EncodeToMemory \<lparr>Type = ECPrivateKeyPemType, Headers = [], Bytes = ''ec1''\<rparr>
          @ ''trailing'', None)"
  by (simp add: toyLib_def toy_ReadFile_def)

lemma toy_Decode_ec:
  "fst (pem_Decode toyLib
          (toy_pem_EncodeToMemory \<lparr>Type = ECPrivateKeyPemType, Headers = [], Bytes = ''ec1''\<rparr> @ t))
     = Some \<lparr>Type = ECPrivateKeyPemType, Headers = [], Bytes = ''ec1''\<rparr>"
  by (simp add: toyLib_def toy_pem_Decode_Encode)

lemma toy_Marshal_ec:
  "x509_MarshalPKCS8PrivateKey toyLib (ECDSA_PrivateKey toy_ec) = (''ec'', None)"
  by (simp add: toyLib_def toy_MarshalPKCS8PrivateKey_def)

lemma toy_ParseEC: "x509_ParseECPrivateKey toyLib ''ec1'' = (toy_ec, None)"
  by (simp add: toyLib_def)

lemma toy_Generate: "GeneratePrivateKey toyLib rk = (toy_ec, None)"
  by (simp add: GeneratePrivateKey_def toyLib_def)

lemma toy_MarshalPublic_ec:
  "cryptoutils_MarshalPublicKeyToPEM toyLib (ecdsa_Public toy_ec) = (''pub-ec'', None)"
  by (simp add: toyLib_def toy_MarshalPublicKeyToPEM_def)

lemma toy_MarshalPublic_rsa:
  "cryptoutils_MarshalPublicKeyToPEM toyLib (rsa_Public toy_rsa) = (''pub-rsa'', None)"
  by (simp add: toyLib_def toy_MarshalPublicKeyToPEM_def rsa_Public_def ecdsa_Public_def)

lemma toy_Encrypt_eq:
  "encrypted_Encrypt toyLib rnd x pw = (fst (toy_Encrypt [] x pw), None)"
  by (simp add: toyLib_def toy_Encrypt_def)

lemma toy_MarshallKeyPair_ec:
  "MarshallKeyPair toyLib \<lparr>Key_private = ECDSA_PrivateKey toy_ec, Key_public = ecdsa_Public toy_ec\<rparr>
     toy_pf rnd ()
   = ((Some \<lparr>PrivateBytes = toy_bundle ''ec'' ''correct-horse'', PublicBytes = ''pub-ec'',
              password = ''correct-horse''\<rparr>, None), ())"
  by (simp add: MarshallKeyPair_def toy_Marshal_ec toy_pf_def toy_Encrypt_eq toy_MarshalPublic_ec
      toy_bundle_def) (simp add: toyLib_def)

lemma toy_Marshal_ed:
  "x509_MarshalPKCS8PrivateKey toyLib (Ed25519_PrivateKey ''seed'') = (''ed'', None)"
  by (simp add: toyLib_def toy_MarshalPKCS8PrivateKey_def)

lemma toy_MarshalPublic_ed:
  "cryptoutils_MarshalPublicKeyToPEM toyLib (Ed25519_PublicKey ''edpub'') = (''pub-ed'', None)"
  by (simp add: toyLib_def toy_MarshalPublicKeyToPEM_def rsa_Public_def ecdsa_Public_def)

lemma toy_MarshallKeyPair_ed:
  "MarshallKeyPair toyLib
     \<lparr>Key_private = Ed25519_PrivateKey ''seed'', Key_public = Ed25519_PublicKey ''edpub''\<rparr>
     toy_pf rnd ()
   = ((Some \<lparr>PrivateBytes = toy_bundle ''ed'' ''correct-horse'', PublicBytes = ''pub-ed'',
              password = ''correct-horse''\<rparr>, None), ())"
  by (simp add: MarshallKeyPair_def toy_Marshal_ed toy_pf_def toy_Encrypt_eq toy_MarshalPublic_ed
      toy_bundle_def) (simp add: toyLib_def)

lemma toy_GenerateKeyPair:
  "GenerateKeyPair toyLib toy_pf rk rnd ()
   = ((Some \<lparr>PrivateBytes = toy_bundle ''ec'' ''correct-horse'', PublicBytes = ''pub-ec'',
              password = ''correct-horse''\<rparr>, None), ())"
  using toy_MarshalPublic_ec
  by (simp add: GenerateKeyPair_def toy_Generate toy_Marshal_ec toy_pf_def toy_Encrypt_eq
      ecdsa_Public_def toy_bundle_def) (simp add: toyLib_def)



lemma nul_Decrypt_Encrypt:
  "nul_Encrypt rnd x pw = (enc, None) \<Longrightarrow> nul_Decrypt enc q =
     (if toy_key pw = toy_key q then (x, None)
      else ([], Some (errorString ''encrypted: decryption failed'')))"
  by (auto simp: nul_Decrypt_def nul_Encrypt_def toy_unframe_frame)


lemma nulLib_decrypt_encrypt: "decrypt_encrypt nulLib"
  by (simp add: decrypt_encrypt_def nulLib_def nul_Decrypt_Encrypt)

lemma strict_Decode_Encode:
  "strict_pem_Decode (strict_pem_EncodeToMemory blk @ t)
     = (Some \<lparr>Type = Type blk, Headers = [], Bytes = Bytes blk\<rparr>, t)"
  by (simp add: strict_pem_Decode_def strict_pem_EncodeToMemory_def toy_pem_Decode_Encode
      line_end_blank_def)

lemma strict_Decode_bare:
  "strict_pem_Decode (toy_pem_EncodeToMemory blk)
     = (Some \<lparr>Type = Type blk, Headers = [], Bytes = Bytes blk\<rparr>, [])"
  by (simp add: strict_pem_Decode_def toy_pem_Decode_Encode0 line_end_blank_def)

lemma strict_Decode_bare_trailing:
  "strict_pem_Decode (toy_pem_EncodeToMemory blk @ ''trailing'')
     = (None, toy_pem_EncodeToMemory blk @ ''trailing'')"
  by (simp add: strict_pem_Decode_def toy_pem_Decode_Encode line_end_blank_def)

lemma strictLib_pem_roundtrip: "pem_roundtrip strictLib"
  using strict_Decode_Encode [of _ "[]"] by (simp add: pem_roundtrip_def strictLib_def)






lemma strict_bundle_Decode:
  "fst (pem_Decode strictLib (strict_bundle @ t))
     = Some \<lparr>Type = PrivateKeyPemType, Headers = [],
             Bytes = fst (toy_Encrypt [] ''ec'' ''correct-horse'')\<rparr>"
  by (simp add: strict_bundle_def strictLib_def strict_Decode_Encode)

lemma strict_toy_bundle_Decode:
  "fst (pem_Decode strictLib (toy_bundle ''ec'' ''correct-horse''))
     = Some \<lparr>Type = PrivateKeyPemType, Headers = [],
             Bytes = fst (toy_Encrypt [] ''ec'' ''correct-horse'')\<rparr>"
  by (simp add: toy_bundle_def strictLib_def strict_Decode_bare)

lemma strict_toy_bundle_trailing:
  "fst (pem_Decode strictLib (toy_bundle ''ec'' ''correct-horse'' @ ''trailing'')) = None"
  by (simp add: toy_bundle_def strictLib_def strict_Decode_bare_trailing)

lemma strict_Load_fields:
  "encrypted_Decrypt strictLib = encrypted_Decrypt toyLib"
  "x509_ParsePKCS8PrivateKey strictLib ''ec'' = (ECDSA_PrivateKey toy_ec, None)"
  "signature_LoadECDSASignerVerifier strictLib toy_ec SHA256 = (Some toy_ec, None)"
  by (simp_all add: strictLib_def toyLib_def toy_ParsePKCS8PrivateKey_def)

lemma strict_MarshallKeyPair_ec:
  "MarshallKeyPair strictLib
     \<lparr>Key_private = ECDSA_PrivateKey toy_ec, Key_public = ecdsa_Public toy_ec\<rparr> toy_pf rnd ()
   = ((Some \<lparr>PrivateBytes = strict_bundle, PublicBytes = ''pub-ec'',
              password = ''correct-horse''\<rparr>, None), ())"
proof -
  have m: "x509_MarshalPKCS8PrivateKey strictLib (ECDSA_PrivateKey toy_ec) = (''ec'', None)"
    using toy_Marshal_ec by (simp add: strictLib_def)
  have e: "encrypted_Encrypt strictLib rnd ''ec'' ''correct-horse''
             = (fst (toy_Encrypt [] ''ec'' ''correct-horse''), None)"
    using toy_Encrypt_eq [of rnd "''ec''" "''correct-horse''"] by (simp add: strictLib_def)
  have p: "cryptoutils_MarshalPublicKeyToPEM strictLib (ecdsa_Public toy_ec) = (''pub-ec'', None)"
    using toy_MarshalPublic_ec by (simp add: strictLib_def)
  have f: "pem_EncodeToMemory strictLib = strict_pem_EncodeToMemory"
    by (simp add: strictLib_def)
  show ?thesis
    by (simp add: MarshallKeyPair_def m toy_pf_def e p f strict_bundle_def)
qed

section \<open>The loaders\<close>

text \<open>
  Claim C1. When the framing and the tag are valid and the payload decrypts and parses
  to a key that is neither RSA nor elliptic-curve, \<^verbatim>\<open>LoadPrivateKey\<close> should reject
  the algorithm with an error. The last line of the function wraps the error variable,
  which is nil after a successful parse, and wrapping nil gives nil: the function
  returns a nil signer together with a nil error.
\<close>

theorem LoadPrivateKey_other_algorithm_nil_nil:
  assumes "fst (pem_Decode L key) = Some p"
    and "Type p = PrivateKeyPemType"
    and "encrypted_Decrypt L (Bytes p) pass = (x509Encoded, None)"
    and "x509_ParsePKCS8PrivateKey L x509Encoded = (pk, None)"
    and "pk = Ed25519_PrivateKey k \<or> pk = ECDH_PrivateKey k"
  shows "LoadPrivateKey L key pass = Return None None"
  using assms by (auto simp: LoadPrivateKey_def)

theorem LoadPrivateKey_other_algorithm_nil_nil_witness:
  "MarshallKeyPair toyLib
     \<lparr>Key_private = Ed25519_PrivateKey ''seed'', Key_public = Ed25519_PublicKey ''edpub''\<rparr>
     toy_pf [] ()
   = ((Some \<lparr>PrivateBytes = toy_bundle ''ed'' ''correct-horse'', PublicBytes = ''pub-ed'',
              password = ''correct-horse''\<rparr>, None), ())
   \<and> fst (pem_Decode toyLib (toy_bundle ''ed'' ''correct-horse''))
     = Some \<lparr>Type = PrivateKeyPemType, Headers = [],
             Bytes = fst (toy_Encrypt [] ''ed'' ''correct-horse'')\<rparr>
   \<and> encrypted_Decrypt toyLib (fst (toy_Encrypt [] ''ed'' ''correct-horse'')) ''correct-horse''
       = (''ed'', None)
   \<and> x509_ParsePKCS8PrivateKey toyLib ''ed'' = (Ed25519_PrivateKey ''seed'', None)
   \<and> LoadPrivateKey toyLib (toy_bundle ''ed'' ''correct-horse'') ''correct-horse''
       = Return None None"
proof -
  let ?p = "\<lparr>Type = PrivateKeyPemType, Headers = [],
             Bytes = fst (toy_Encrypt [] ''ed'' ''correct-horse'')\<rparr>"
  have dec: "fst (pem_Decode toyLib (toy_bundle ''ed'' ''correct-horse'')) = Some ?p"
    using toy_bundle_Decode [of "''ed''" "''correct-horse''" "[]"] by simp
  have tag: "Type ?p = PrivateKeyPemType"
    by simp
  have dcr: "encrypted_Decrypt toyLib (Bytes ?p) ''correct-horse'' = (''ed'', None)"
    by (simp add: toy_bundle_Decrypt)
  have prs: "x509_ParsePKCS8PrivateKey toyLib ''ed'' = (Ed25519_PrivateKey ''seed'', None)"
    by (simp add: toyLib_def toy_ParsePKCS8PrivateKey_def)
  have "LoadPrivateKey toyLib (toy_bundle ''ed'' ''correct-horse'') ''correct-horse''
          = Return None None"
    by (rule LoadPrivateKey_other_algorithm_nil_nil [OF dec tag dcr prs]) simp
  with dec dcr prs show ?thesis
    by (simp add: toy_MarshallKeyPair_ed)
qed

text \<open>
  Claim C2. On a well-framed, decryptable bundle of the other algorithm the two specific
  loaders should both return an error. \<^verbatim>\<open>LoadECDSAPrivateKey\<close> does, through its
  checked type assertion; \<^verbatim>\<open>LoadRSAPrivateKey\<close> asserts the type unchecked and panics.
\<close>

theorem specific_loaders_on_other_algorithm:
  assumes "fst (pem_Decode L key) = Some p"
    and "Type p = PrivateKeyPemType"
    and "encrypted_Decrypt L (Bytes p) pass = (x509Encoded, None)"
    and "x509_ParsePKCS8PrivateKey L x509Encoded = (pk, None)"
  shows "((\<forall>rpk. pk \<noteq> RSA_PrivateKey rpk) \<longrightarrow>
            LoadRSAPrivateKey L key pass
              = Panic (''interface conversion: interface {} is '' @ privateTypeName pk
                       @ '', not *rsa.PrivateKey''))
       \<and> ((\<forall>epk. pk \<noteq> ECDSA_PrivateKey epk) \<longrightarrow>
            LoadECDSAPrivateKey L key pass
              = Return None (Some (errors_New ''invalid private key'')))"
  using assms
  by (cases pk) (simp_all add: LoadRSAPrivateKey_def LoadECDSAPrivateKey_def)

theorem specific_loaders_on_other_algorithm_witness:
  "GenerateKeyPair toyLib toy_pf [] [] ()
   = ((Some \<lparr>PrivateBytes = toy_bundle ''ec'' ''correct-horse'', PublicBytes = ''pub-ec'',
              password = ''correct-horse''\<rparr>, None), ())
   \<and> fst (pem_Decode toyLib (toy_bundle ''ec'' ''correct-horse''))
     = Some \<lparr>Type = PrivateKeyPemType, Headers = [],
             Bytes = fst (toy_Encrypt [] ''ec'' ''correct-horse'')\<rparr>
   \<and> encrypted_Decrypt toyLib (fst (toy_Encrypt [] ''ec'' ''correct-horse'')) ''correct-horse''
       = (''ec'', None)
   \<and> x509_ParsePKCS8PrivateKey toyLib ''ec'' = (ECDSA_PrivateKey toy_ec, None)
   \<and> LoadRSAPrivateKey toyLib (toy_bundle ''ec'' ''correct-horse'') ''correct-horse''
       = Panic ''interface conversion: interface {} is *ecdsa.PrivateKey, not *rsa.PrivateKey''
   \<and> fst (pem_Decode toyLib (toy_bundle ''rsa'' ''correct-horse''))
     = Some \<lparr>Type = PrivateKeyPemType, Headers = [],
             Bytes = fst (toy_Encrypt [] ''rsa'' ''correct-horse'')\<rparr>
   \<and> encrypted_Decrypt toyLib (fst (toy_Encrypt [] ''rsa'' ''correct-horse'')) ''correct-horse''
       = (''rsa'', None)
   \<and> x509_ParsePKCS8PrivateKey toyLib ''rsa'' = (RSA_PrivateKey toy_rsa, None)
   \<and> LoadECDSAPrivateKey toyLib (toy_bundle ''rsa'' ''correct-horse'') ''correct-horse''
       = Return None (Some (errors_New ''invalid private key''))"
proof -
  let ?pe = "\<lparr>Type = PrivateKeyPemType, Headers = [],
             Bytes = fst (toy_Encrypt [] ''ec'' ''correct-horse'')\<rparr>"
  let ?pr = "\<lparr>Type = PrivateKeyPemType, Headers = [],
             Bytes = fst (toy_Encrypt [] ''rsa'' ''correct-horse'')\<rparr>"
  have dec: "fst (pem_Decode toyLib (toy_bundle ''ec'' ''correct-horse'')) = Some ?pe"
    using toy_bundle_Decode [of "''ec''" "''correct-horse''" "[]"] by simp
  have dcr: "encrypted_Decrypt toyLib (Bytes ?pe) ''correct-horse'' = (''ec'', None)"
    by (simp add: toy_bundle_Decrypt)
  have prs: "x509_ParsePKCS8PrivateKey toyLib ''ec'' = (ECDSA_PrivateKey toy_ec, None)"
    by (simp add: toyLib_def toy_ParsePKCS8PrivateKey_def)
  have dec': "fst (pem_Decode toyLib (toy_bundle ''rsa'' ''correct-horse'')) = Some ?pr"
    using toy_bundle_Decode [of "''rsa''" "''correct-horse''" "[]"] by simp
  have dcr': "encrypted_Decrypt toyLib (Bytes ?pr) ''correct-horse'' = (''rsa'', None)"
    by (simp add: toy_bundle_Decrypt)
  have prs': "x509_ParsePKCS8PrivateKey toyLib ''rsa'' = (RSA_PrivateKey toy_rsa, None)"
    by (simp add: toyLib_def toy_ParsePKCS8PrivateKey_def)
  have tag: "Type ?pe = PrivateKeyPemType" "Type ?pr = PrivateKeyPemType"
    by simp_all
  from specific_loaders_on_other_algorithm [OF dec tag(1) dcr prs]
  have a: "LoadRSAPrivateKey toyLib (toy_bundle ''ec'' ''correct-horse'') ''correct-horse''
       = Panic ''interface conversion: interface {} is *ecdsa.PrivateKey, not *rsa.PrivateKey''"
    by simp
  from specific_loaders_on_other_algorithm [OF dec' tag(2) dcr' prs']
  have b: "LoadECDSAPrivateKey toyLib (toy_bundle ''rsa'' ''correct-horse'') ''correct-horse''
       = Return None (Some (errors_New ''invalid private key''))"
    by simp
  from a b dec dcr prs dec' dcr' prs' show ?thesis
    by (simp add: toy_GenerateKeyPair)
qed

text \<open>
  Claim C5. \<^verbatim>\<open>LoadPrivateKey\<close> fails with the format error when no PEM block can be
  decoded from its input, and with an unsupported-format error that names the tag when
  the first block's tag is not that of the encrypted key, as for the two plain tags. The
  result is the same whatever the decryption function \<open>d\<close> is: it is not called, and no
  signer is returned.
\<close>

theorem LoadPrivateKey_input_validation:
  "(fst (pem_Decode L key) = None \<longrightarrow>
      LoadPrivateKey (L\<lparr>encrypted_Decrypt := d\<rparr>) key pass
        = Return None (Some (errors_New ''invalid pem block'')))
   \<and> (fst (pem_Decode L key) = Some p \<and> Type p \<noteq> PrivateKeyPemType \<longrightarrow>
      LoadPrivateKey (L\<lparr>encrypted_Decrypt := d\<rparr>) key pass
        = Return None (Some (fmt_Errorf (''unsupported pem type: '' @ Type p)))
      \<and> Error (fmt_Errorf (''unsupported pem type: '' @ Type p))
        = ''unsupported pem type: '' @ Type p)
   \<and> (fst (pem_Decode L key) = Some p
      \<and> (Type p = RSAPrivateKeyPemType \<or> Type p = ECPrivateKeyPemType) \<longrightarrow>
      LoadPrivateKey (L\<lparr>encrypted_Decrypt := d\<rparr>) key pass
        = Return None (Some (fmt_Errorf (''unsupported pem type: '' @ Type p))))"
  using pem_types_distinct(1,2)
  by (auto simp: LoadPrivateKey_def fmt_Errorf_def)

theorem LoadPrivateKey_input_validation_witness:
  "fst (pem_Decode toyLib ''not a pem block'') = None
   \<and> LoadPrivateKey (toyLib\<lparr>encrypted_Decrypt := (\<lambda>enc q. (enc, None))\<rparr>)
         ''not a pem block'' ''correct-horse''
       = Return None (Some (errors_New ''invalid pem block''))
   \<and> fst (pem_Decode toyLib
         (toy_pem_EncodeToMemory \<lparr>Type = ECPrivateKeyPemType, Headers = [], Bytes = ''ec1''\<rparr>))
       = Some \<lparr>Type = ECPrivateKeyPemType, Headers = [], Bytes = ''ec1''\<rparr>
   \<and> ECPrivateKeyPemType \<noteq> PrivateKeyPemType
   \<and> LoadPrivateKey (toyLib\<lparr>encrypted_Decrypt := (\<lambda>enc q. (enc, None))\<rparr>)
         (toy_pem_EncodeToMemory \<lparr>Type = ECPrivateKeyPemType, Headers = [], Bytes = ''ec1''\<rparr>)
         ''correct-horse''
       = Return None (Some (fmt_Errorf ''unsupported pem type: EC PRIVATE KEY''))"
proof -
  let ?p = "\<lparr>Type = ECPrivateKeyPemType, Headers = [], Bytes = ''ec1''\<rparr>"
  let ?d = "\<lambda>enc q :: bytes. (enc, None :: error option)"
  have n: "fst (pem_Decode toyLib ''not a pem block'') = None"
    by (simp add: toyLib_def toy_pem_Decode_def toy_unframe_def)
  have s: "fst (pem_Decode toyLib (toy_pem_EncodeToMemory ?p)) = Some ?p"
    using toy_Decode_ec [of "[]"] by simp
  have t: "Type ?p \<noteq> PrivateKeyPemType" "Type ?p = ECPrivateKeyPemType"
    by (simp_all add: pem_types_distinct)
  have c1: "LoadPrivateKey (toyLib\<lparr>encrypted_Decrypt := ?d\<rparr>) ''not a pem block'' ''correct-horse''
       = Return None (Some (errors_New ''invalid pem block''))"
    using LoadPrivateKey_input_validation [of toyLib "''not a pem block''" ?d "''correct-horse''"] n
    by simp
  have c2: "LoadPrivateKey (toyLib\<lparr>encrypted_Decrypt := ?d\<rparr>) (toy_pem_EncodeToMemory ?p)
         ''correct-horse''
       = Return None (Some (fmt_Errorf (''unsupported pem type: '' @ Type ?p)))"
    using LoadPrivateKey_input_validation [of toyLib "toy_pem_EncodeToMemory ?p" ?d
        "''correct-horse''" ?p] s t
    by simp
  from n s t c1 c2 show ?thesis
    by (simp add: ECPrivateKeyPemType_def)
qed



section \<open>The encoder\<close>

text \<open>What a call that returned a bundle went through.\<close>

lemma MarshallKeyPair_SomeD:
  assumes "fst (fst (MarshallKeyPair L keypair pf rnd w)) = Some ks"
  shows "\<exists>x509Encoded encBytes w'.
           x509_MarshalPKCS8PrivateKey L (Key_private keypair) = (x509Encoded, None)
         \<and> pf True w = ((password ks, None), w')
         \<and> encrypted_Encrypt L rnd x509Encoded (password ks) = (encBytes, None)
         \<and> PrivateBytes ks = pem_EncodeToMemory L
               \<lparr>Type = PrivateKeyPemType, Headers = [], Bytes = encBytes\<rparr>
         \<and> cryptoutils_MarshalPublicKeyToPEM L (Key_public keypair) = (PublicBytes ks, None)
         \<and> MarshallKeyPair L keypair pf rnd w = ((Some ks, None), w')"
  using assms
  by (auto simp: MarshallKeyPair_def Let_def split: prod.splits if_splits)

lemma GenerateKeyPair_SomeD:
  assumes "fst (fst (GenerateKeyPair L pf rk rnd w)) = Some ks"
  shows "\<exists>priv x509Encoded encBytes w'.
           GeneratePrivateKey L rk = (priv, None)
         \<and> x509_MarshalPKCS8PrivateKey L (ECDSA_PrivateKey priv) = (x509Encoded, None)
         \<and> pf True w = ((password ks, None), w')
         \<and> encrypted_Encrypt L rnd x509Encoded (password ks) = (encBytes, None)
         \<and> PrivateBytes ks = pem_EncodeToMemory L
               \<lparr>Type = PrivateKeyPemType, Headers = [], Bytes = encBytes\<rparr>
         \<and> cryptoutils_MarshalPublicKeyToPEM L (ecdsa_Public priv) = (PublicBytes ks, None)
         \<and> GenerateKeyPair L pf rk rnd w = ((Some ks, None), w')"
  using assms
  by (auto simp: GenerateKeyPair_def ecdsa_Public_def Let_def split: prod.splits if_splits)



text \<open>The log of the callback after a call.\<close>

lemma recording_True:
  "recording pf True (calls, w) = (fst (pf True w), (calls @ [True], snd (pf True w)))"
  by (simp add: recording_def split: prod.splits)

lemma MarshallKeyPair_calls:
  "fst (snd (MarshallKeyPair L keypair (recording pf) rnd (calls, w))) =
     (if snd (x509_MarshalPKCS8PrivateKey L (Key_private keypair)) = None
      then calls @ [True] else calls)"
  by (simp add: MarshallKeyPair_def recording_True Let_def split: prod.splits)

lemma GenerateKeyPair_calls:
  "fst (snd (GenerateKeyPair L (recording pf) rk rnd (calls, w))) =
     (if snd (GeneratePrivateKey L rk) = None
         \<and> snd (x509_MarshalPKCS8PrivateKey L (ECDSA_PrivateKey (fst (GeneratePrivateKey L rk))))
             = None
      then calls @ [True] else calls)"
  by (simp add: GenerateKeyPair_def recording_True Let_def split: prod.splits)

lemma ImportKeyPair_calls:
  "fst (snd (ImportKeyPair L keyPath (recording pf) rnd (calls, w))) = calls
   \<or> fst (snd (ImportKeyPair L keyPath (recording pf) rnd (calls, w))) = calls @ [True]"
  by (simp add: ImportKeyPair_def MarshallKeyPair_calls split: prod.splits option.splits)

text \<open>
  Claim C7. A call of \<^verbatim>\<open>MarshallKeyPair\<close>, \<^verbatim>\<open>GenerateKeyPair\<close> or
  \<^verbatim>\<open>ImportKeyPair\<close> that reaches the passphrase step calls the callback exactly once,
  with the argument true; a call that does not reach it does not call it. The loaders
  take the passphrase as bytes and have no callback to call.
\<close>

theorem passphrase_callback_once_with_True:
  "(snd (x509_MarshalPKCS8PrivateKey L (Key_private keypair)) = None \<longrightarrow>
      fst (snd (MarshallKeyPair L keypair (recording pf) rnd (calls, w))) = calls @ [True])
   \<and> (snd (GeneratePrivateKey L rk) = None
      \<and> snd (x509_MarshalPKCS8PrivateKey L (ECDSA_PrivateKey (fst (GeneratePrivateKey L rk))))
          = None \<longrightarrow>
      fst (snd (GenerateKeyPair L (recording pf) rk rnd (calls, w))) = calls @ [True])
   \<and> (os_ReadFile L (filepath_Clean L keyPath) = (kb, None)
      \<and> fst (pem_Decode L kb) = Some p
      \<and> (Type p = RSAPrivateKeyPemType
           \<and> snd (x509_ParsePKCS1PrivateKey L (Bytes p)) = None
           \<and> snd (x509_MarshalPKCS8PrivateKey L
                    (RSA_PrivateKey (fst (x509_ParsePKCS1PrivateKey L (Bytes p))))) = None
         \<or> Type p = ECPrivateKeyPemType
           \<and> snd (x509_ParseECPrivateKey L (Bytes p)) = None
           \<and> snd (x509_MarshalPKCS8PrivateKey L
                    (ECDSA_PrivateKey (fst (x509_ParseECPrivateKey L (Bytes p))))) = None) \<longrightarrow>
      fst (snd (ImportKeyPair L keyPath (recording pf) rnd (calls, w))) = calls @ [True])
   \<and> (fst (snd (MarshallKeyPair L keypair (recording pf) rnd (calls, w))) = calls
      \<or> fst (snd (MarshallKeyPair L keypair (recording pf) rnd (calls, w))) = calls @ [True])
   \<and> (fst (snd (GenerateKeyPair L (recording pf) rk rnd (calls, w))) = calls
      \<or> fst (snd (GenerateKeyPair L (recording pf) rk rnd (calls, w))) = calls @ [True])
   \<and> (fst (snd (ImportKeyPair L keyPath (recording pf) rnd (calls, w))) = calls
      \<or> fst (snd (ImportKeyPair L keyPath (recording pf) rnd (calls, w))) = calls @ [True])"
proof -
  have imp: "fst (snd (ImportKeyPair L keyPath (recording pf) rnd (calls, w))) = calls @ [True]"
    if "os_ReadFile L (filepath_Clean L keyPath) = (kb, None)"
      and "fst (pem_Decode L kb) = Some p"
      and "Type p = RSAPrivateKeyPemType
           \<and> snd (x509_ParsePKCS1PrivateKey L (Bytes p)) = None
           \<and> snd (x509_MarshalPKCS8PrivateKey L
                    (RSA_PrivateKey (fst (x509_ParsePKCS1PrivateKey L (Bytes p))))) = None
         \<or> Type p = ECPrivateKeyPemType
           \<and> snd (x509_ParseECPrivateKey L (Bytes p)) = None
           \<and> snd (x509_MarshalPKCS8PrivateKey L
                    (ECDSA_PrivateKey (fst (x509_ParseECPrivateKey L (Bytes p))))) = None"
    using that pem_types_distinct(3)
    by (auto simp: ImportKeyPair_def MarshallKeyPair_calls split: prod.splits)
  show ?thesis
    using imp ImportKeyPair_calls [of L keyPath pf rnd calls w]
    by (simp add: MarshallKeyPair_calls GenerateKeyPair_calls)
qed


theorem passphrase_callback_once_with_True_witness:
  "snd (x509_MarshalPKCS8PrivateKey toyLib
          (Key_private \<lparr>Key_private = ECDSA_PrivateKey toy_ec, Key_public = ecdsa_Public toy_ec\<rparr>))
     = None
   \<and> fst (snd (MarshallKeyPair toyLib
          \<lparr>Key_private = ECDSA_PrivateKey toy_ec, Key_public = ecdsa_Public toy_ec\<rparr>
          (recording toy_pf) [] ([], ()))) = [True]
   \<and> snd (GeneratePrivateKey toyLib []) = None
   \<and> fst (snd (GenerateKeyPair toyLib (recording toy_pf) [] [] ([], ()))) = [True]
   \<and> fst (os_ReadFile toyLib (filepath_Clean toyLib ''ec.pem''))
       = toy_pem_EncodeToMemory \<lparr>Type = ECPrivateKeyPemType, Headers = [], Bytes = ''ec1''\<rparr>
   \<and> fst (snd (ImportKeyPair toyLib ''ec.pem'' (recording toy_pf) [] ([], ()))) = [True]"
proof -
  let ?K = "\<lparr>Key_private = ECDSA_PrivateKey toy_ec, Key_public = ecdsa_Public toy_ec\<rparr>"
  let ?p = "\<lparr>Type = ECPrivateKeyPemType, Headers = [], Bytes = ''ec1''\<rparr>"
  note once = passphrase_callback_once_with_True [where L = toyLib and keypair = ?K
      and pf = toy_pf and rnd = "[]" and calls = "[]" and w = "()" and rk = "[]"
      and keyPath = "''ec.pem''" and kb = "toy_pem_EncodeToMemory ?p" and p = ?p]
  have m: "snd (x509_MarshalPKCS8PrivateKey toyLib (Key_private ?K)) = None"
    by (simp add: toy_Marshal_ec)
  have g: "snd (GeneratePrivateKey toyLib []) = None
      \<and> snd (x509_MarshalPKCS8PrivateKey toyLib
               (ECDSA_PrivateKey (fst (GeneratePrivateKey toyLib [])))) = None"
    by (simp add: toy_Generate toy_Marshal_ec)
  have i: "os_ReadFile toyLib (filepath_Clean toyLib ''ec.pem'') = (toy_pem_EncodeToMemory ?p, None)
      \<and> fst (pem_Decode toyLib (toy_pem_EncodeToMemory ?p)) = Some ?p
      \<and> Type ?p = ECPrivateKeyPemType
      \<and> snd (x509_ParseECPrivateKey toyLib (Bytes ?p)) = None
      \<and> snd (x509_MarshalPKCS8PrivateKey toyLib
               (ECDSA_PrivateKey (fst (x509_ParseECPrivateKey toyLib (Bytes ?p))))) = None"
    using toy_Decode_ec [of "[]"] by (simp add: toy_ReadFile_ec toy_ParseEC toy_Marshal_ec)
  have c1: "fst (snd (MarshallKeyPair toyLib ?K (recording toy_pf) [] ([], ()))) = [True]"
    using once m by simp
  have c2: "fst (snd (GenerateKeyPair toyLib (recording toy_pf) [] [] ([], ()))) = [True]"
    using once g by simp
  have c3: "fst (snd (ImportKeyPair toyLib ''ec.pem'' (recording toy_pf) [] ([], ()))) = [True]"
    using once i by simp
  from m g i c1 c2 c3 show ?thesis
    by simp
qed

text \<open>
  Claim C8. The \<^verbatim>\<open>Password()\<close> of a bundle returned by \<^verbatim>\<open>MarshallKeyPair\<close> or
  \<^verbatim>\<open>GenerateKeyPair\<close> is the byte string that the callback returned in that call; when
  the callback returns an error, the call returns that very error and no bundle.
\<close>

theorem passphrase_reexposed_callback_error_unchanged:
  "(fst (fst (MarshallKeyPair L keypair pf rnd w)) = Some ks \<longrightarrow>
      Password ks = fst (fst (pf True w)))
   \<and> (fst (fst (GenerateKeyPair L pf rk rnd w)) = Some ks' \<longrightarrow>
      Password ks' = fst (fst (pf True w)))
   \<and> (snd (x509_MarshalPKCS8PrivateKey L (Key_private keypair)) = None
      \<and> snd (fst (pf True w)) = Some e \<longrightarrow>
      fst (MarshallKeyPair L keypair pf rnd w) = (None, Some e))
   \<and> (snd (GeneratePrivateKey L rk) = None
      \<and> snd (x509_MarshalPKCS8PrivateKey L (ECDSA_PrivateKey (fst (GeneratePrivateKey L rk))))
          = None
      \<and> snd (fst (pf True w)) = Some e \<longrightarrow>
      fst (GenerateKeyPair L pf rk rnd w) = (None, Some e))"
proof -
  have a: "Password ks = fst (fst (pf True w))"
    if "fst (fst (MarshallKeyPair L keypair pf rnd w)) = Some ks"
    using MarshallKeyPair_SomeD [OF that] by (auto simp: Password_def)
  have b: "Password ks' = fst (fst (pf True w))"
    if "fst (fst (GenerateKeyPair L pf rk rnd w)) = Some ks'"
    using GenerateKeyPair_SomeD [OF that] by (auto simp: Password_def)
  have c: "fst (MarshallKeyPair L keypair pf rnd w) = (None, Some e)"
    if "snd (x509_MarshalPKCS8PrivateKey L (Key_private keypair)) = None"
      and "snd (fst (pf True w)) = Some e"
    using that by (auto simp: MarshallKeyPair_def split: prod.splits)
  have d: "fst (GenerateKeyPair L pf rk rnd w) = (None, Some e)"
    if "snd (GeneratePrivateKey L rk) = None"
      and "snd (x509_MarshalPKCS8PrivateKey L (ECDSA_PrivateKey (fst (GeneratePrivateKey L rk))))
          = None"
      and "snd (fst (pf True w)) = Some e"
    using that by (auto simp: GenerateKeyPair_def split: prod.splits)
  from a b c d show ?thesis
    by blast
qed

theorem passphrase_reexposed_callback_error_unchanged_witness:
  "fst (fst (MarshallKeyPair toyLib
        \<lparr>Key_private = ECDSA_PrivateKey toy_ec, Key_public = ecdsa_Public toy_ec\<rparr> toy_pf [] ()))
     = Some \<lparr>PrivateBytes = toy_bundle ''ec'' ''correct-horse'', PublicBytes = ''pub-ec'',
             password = ''correct-horse''\<rparr>
   \<and> Password \<lparr>PrivateBytes = toy_bundle ''ec'' ''correct-horse'', PublicBytes = ''pub-ec'',
             password = ''correct-horse''\<rparr> = fst (fst (toy_pf True ()))
   \<and> fst (fst (toy_pf True ())) = ''correct-horse''
   \<and> fst (fst (GenerateKeyPair toyLib toy_pf [] [] ()))
     = Some \<lparr>PrivateBytes = toy_bundle ''ec'' ''correct-horse'', PublicBytes = ''pub-ec'',
             password = ''correct-horse''\<rparr>
   \<and> snd (fst (toy_cancel True ())) = Some (errorString ''cancelled'')
   \<and> fst (MarshallKeyPair toyLib
        \<lparr>Key_private = ECDSA_PrivateKey toy_ec, Key_public = ecdsa_Public toy_ec\<rparr> toy_cancel [] ())
     = (None, Some (errorString ''cancelled''))
   \<and> fst (GenerateKeyPair toyLib toy_cancel [] [] ()) = (None, Some (errorString ''cancelled''))"
proof -
  let ?K = "\<lparr>Key_private = ECDSA_PrivateKey toy_ec, Key_public = ecdsa_Public toy_ec\<rparr>"
  let ?ks = "\<lparr>PrivateBytes = toy_bundle ''ec'' ''correct-horse'', PublicBytes = ''pub-ec'',
             password = ''correct-horse''\<rparr>"
  note ok = passphrase_reexposed_callback_error_unchanged [where L = toyLib and keypair = ?K
      and pf = toy_pf and rnd = "[]" and rk = "[]" and w = "()" and ks = ?ks and ks' = ?ks]
  note cancelled = passphrase_reexposed_callback_error_unchanged [where L = toyLib
      and keypair = ?K and pf = toy_cancel and rnd = "[]" and rk = "[]" and w = "()"
      and e = "errorString ''cancelled''"]
  have m: "fst (fst (MarshallKeyPair toyLib ?K toy_pf [] ())) = Some ?ks"
    by (simp add: toy_MarshallKeyPair_ec)
  have g: "fst (fst (GenerateKeyPair toyLib toy_pf [] [] ())) = Some ?ks"
    by (simp add: toy_GenerateKeyPair)
  have r: "snd (x509_MarshalPKCS8PrivateKey toyLib (Key_private ?K)) = None"
      "snd (GeneratePrivateKey toyLib []) = None"
      "snd (x509_MarshalPKCS8PrivateKey toyLib
             (ECDSA_PrivateKey (fst (GeneratePrivateKey toyLib [])))) = None"
      "snd (fst (toy_cancel True ())) = Some (errorString ''cancelled'')"
    by (simp_all add: toy_Marshal_ec toy_Generate toy_cancel_def)
  have c1: "Password ?ks = fst (fst (toy_pf True ()))"
    using ok m by blast
  have c2: "fst (MarshallKeyPair toyLib ?K toy_cancel [] ()) = (None, Some (errorString ''cancelled''))"
    using cancelled r by blast
  have c3: "fst (GenerateKeyPair toyLib toy_cancel [] [] ()) = (None, Some (errorString ''cancelled''))"
    using cancelled r by blast
  have p: "fst (fst (toy_pf True ())) = ''correct-horse''"
    by (simp add: toy_pf_def)
  from m g r c1 c2 c3 p show ?thesis
    by simp
qed



text \<open>
  Claim C10. \<^verbatim>\<open>MarshallKeyPair\<close> does not compare the two handles of its \<^verbatim>\<open>Key\<close>. The
  claim says that it succeeds whenever both handles can be serialized and the callback
  succeeds; the encryption is a further step that can fail, and then the call fails.
\<close>

theorem MarshallKeyPair_fails_when_encryption_fails:
  "x509_MarshalPKCS8PrivateKey toyLib_no_entropy (ECDSA_PrivateKey toy_ec) = (''ec'', None)
   \<and> cryptoutils_MarshalPublicKeyToPEM toyLib_no_entropy (ecdsa_Public toy_ec) = (''pub-ec'', None)
   \<and> toy_pf True () = ((''correct-horse'', None), ())
   \<and> MarshallKeyPair toyLib_no_entropy
         \<lparr>Key_private = ECDSA_PrivateKey toy_ec, Key_public = ecdsa_Public toy_ec\<rparr> toy_pf [] ()
       = ((None, Some (errorString ''rand: entropy source failed'')), ())"
proof -
  have m: "x509_MarshalPKCS8PrivateKey toyLib_no_entropy (ECDSA_PrivateKey toy_ec) = (''ec'', None)"
    using toy_Marshal_ec by (simp add: toyLib_no_entropy_def)
  have p: "cryptoutils_MarshalPublicKeyToPEM toyLib_no_entropy (ecdsa_Public toy_ec)
             = (''pub-ec'', None)"
    using toy_MarshalPublic_ec by (simp add: toyLib_no_entropy_def)
  have c: "toy_pf True () = ((''correct-horse'', None), ())"
    by (simp add: toy_pf_def)
  have e: "encrypted_Encrypt toyLib_no_entropy [] ''ec'' ''correct-horse''
             = ([], Some (errorString ''rand: entropy source failed''))"
    by (simp add: toyLib_no_entropy_def)
  show ?thesis
    by (simp add: MarshallKeyPair_def m p c e)
qed

text \<open>
  Claim C10, amended. Whenever both handles can be serialized, the callback succeeds and
  the encryption succeeds, \<^verbatim>\<open>MarshallKeyPair\<close> succeeds, for a mismatched pair of
  handles too, and the public bytes of the bundle are the serialization of the public
  handle it was given.
\<close>

theorem MarshallKeyPair_no_pairing_check:
  assumes "x509_MarshalPKCS8PrivateKey L (Key_private keypair) = (x509Encoded, None)"
    and "pf True w = ((pw, None), w')"
    and "encrypted_Encrypt L rnd x509Encoded pw = (encBytes, None)"
    and "cryptoutils_MarshalPublicKeyToPEM L (Key_public keypair) = (pubBytes, None)"
  shows "MarshallKeyPair L keypair pf rnd w
           = ((Some \<lparr>PrivateBytes = pem_EncodeToMemory L
                        \<lparr>Type = PrivateKeyPemType, Headers = [], Bytes = encBytes\<rparr>,
                      PublicBytes = pubBytes, password = pw\<rparr>, None), w')"
  using assms by (simp add: MarshallKeyPair_def)

theorem MarshallKeyPair_no_pairing_check_witness:
  "x509_MarshalPKCS8PrivateKey toyLib (ECDSA_PrivateKey toy_ec) = (''ec'', None)
   \<and> toy_pf True () = ((''correct-horse'', None), ())
   \<and> encrypted_Encrypt toyLib [] ''ec'' ''correct-horse''
       = (fst (toy_Encrypt [] ''ec'' ''correct-horse''), None)
   \<and> cryptoutils_MarshalPublicKeyToPEM toyLib (rsa_Public toy_rsa) = (''pub-rsa'', None)
   \<and> rsa_Public toy_rsa \<noteq> ecdsa_Public toy_ec
   \<and> MarshallKeyPair toyLib
         \<lparr>Key_private = ECDSA_PrivateKey toy_ec, Key_public = rsa_Public toy_rsa\<rparr> toy_pf [] ()
       = ((Some \<lparr>PrivateBytes = pem_EncodeToMemory toyLib
                    \<lparr>Type = PrivateKeyPemType, Headers = [],
                       Bytes = fst (toy_Encrypt [] ''ec'' ''correct-horse'')\<rparr>,
                  PublicBytes = ''pub-rsa'', password = ''correct-horse''\<rparr>, None), ())"
proof -
  let ?K = "\<lparr>Key_private = ECDSA_PrivateKey toy_ec, Key_public = rsa_Public toy_rsa\<rparr>"
  have m: "x509_MarshalPKCS8PrivateKey toyLib (Key_private ?K) = (''ec'', None)"
    by (simp add: toy_Marshal_ec)
  have c: "toy_pf True () = ((''correct-horse'', None), ())"
    by (simp add: toy_pf_def)
  have e: "encrypted_Encrypt toyLib [] ''ec'' ''correct-horse''
             = (fst (toy_Encrypt [] ''ec'' ''correct-horse''), None)"
    by (rule toy_Encrypt_eq)
  have p: "cryptoutils_MarshalPublicKeyToPEM toyLib (Key_public ?K) = (''pub-rsa'', None)"
    by (simp add: toy_MarshalPublic_rsa)
  have d: "rsa_Public toy_rsa \<noteq> ecdsa_Public toy_ec"
    by (simp add: rsa_Public_def ecdsa_Public_def)
  have r: "MarshallKeyPair toyLib ?K toy_pf [] ()
       = ((Some \<lparr>PrivateBytes = pem_EncodeToMemory toyLib
                    \<lparr>Type = PrivateKeyPemType, Headers = [],
                       Bytes = fst (toy_Encrypt [] ''ec'' ''correct-horse'')\<rparr>,
                  PublicBytes = ''pub-rsa'', password = ''correct-horse''\<rparr>, None), ())"
    using m c e p
    by (rule MarshallKeyPair_no_pairing_check [where L = toyLib and keypair = ?K and pf = toy_pf])
  from m c e p d r show ?thesis
    by simp
qed

section \<open>From the encoder to the loaders\<close>







text \<open>
  Claim C3. For a bundle made by \<^verbatim>\<open>GenerateKeyPair\<close>, \<^verbatim>\<open>LoadPrivateKey\<close> on its
  private bytes with the passphrase that the callback returned succeeds; the signer it
  returns is the one loaded from the generated private key, the public bytes of the
  bundle parse to the public key of that private key, and every signature of the signer
  verifies under it.
\<close>

theorem generate_load_roundtrip:
  assumes "pem_roundtrip L" and "decrypt_encrypt L" and "pkcs8_roundtrip L"
    and "public_pem_roundtrip L" and "ecdsa_signer_correct L"
    and "fst (fst (GenerateKeyPair L pf rk rnd w)) = Some ks"
  shows "\<exists>priv sv.
           GeneratePrivateKey L rk = (priv, None)
         \<and> signature_LoadECDSASignerVerifier L priv SHA256 = (Some sv, None)
         \<and> LoadPrivateKey L (PrivateBytes ks) (fst (fst (pf True w)))
             = Return (Some (ECDSASignerVerifier (Some sv))) None
         \<and> PemToECDSAKey L (PublicBytes ks) = (Some (ecdsa_PublicKey priv), None)
         \<and> (\<forall>rnd' msg sig. ecdsa_SignMessage L sv rnd' msg = (sig, None) \<longrightarrow>
               ecdsa_VerifySignature L (ecdsa_PublicKey priv) SHA256 sig msg = None)"
proof -
  from GenerateKeyPair_SomeD [OF assms(6)] obtain priv x509Encoded encBytes w' where
    gen: "GeneratePrivateKey L rk = (priv, None)"
    and der: "x509_MarshalPKCS8PrivateKey L (ECDSA_PrivateKey priv) = (x509Encoded, None)"
    and pw: "pf True w = ((password ks, None), w')"
    and enc: "encrypted_Encrypt L rnd x509Encoded (password ks) = (encBytes, None)"
    and priv: "PrivateBytes ks = pem_EncodeToMemory L
               \<lparr>Type = PrivateKeyPemType, Headers = [], Bytes = encBytes\<rparr>"
    and pub: "cryptoutils_MarshalPublicKeyToPEM L (ecdsa_Public priv) = (PublicBytes ks, None)"
    by blast
  from assms(1) priv obtain p where
    p: "fst (pem_Decode L (PrivateBytes ks)) = Some p" "Type p = PrivateKeyPemType"
      "Bytes p = encBytes"
    unfolding pem_roundtrip_def by metis
  from assms(2) enc have dcr: "encrypted_Decrypt L encBytes (password ks) = (x509Encoded, None)"
    unfolding decrypt_encrypt_def by blast
  from assms(3) der have prs: "x509_ParsePKCS8PrivateKey L x509Encoded = (ECDSA_PrivateKey priv, None)"
    unfolding pkcs8_roundtrip_def by blast
  from assms(5) gen obtain sv where
    sv: "signature_LoadECDSASignerVerifier L priv SHA256 = (Some sv, None)"
    and ver: "\<forall>rnd' msg sig. ecdsa_SignMessage L sv rnd' msg = (sig, None) \<longrightarrow>
               ecdsa_VerifySignature L (ecdsa_PublicKey priv) SHA256 sig msg = None"
    unfolding ecdsa_signer_correct_def GeneratePrivateKey_def by blast
  have ec: "LoadECDSAPrivateKey L (PrivateBytes ks) (password ks) = Return (Some sv) None"
    by (simp add: LoadECDSAPrivateKey_def p dcr prs sv)
  have load: "LoadPrivateKey L (PrivateBytes ks) (password ks)
                = Return (Some (ECDSASignerVerifier (Some sv))) None"
    by (simp add: LoadPrivateKey_def p dcr prs ec)
  from assms(4) pub have "cryptoutils_UnmarshalPEMToPublicKey L (PublicBytes ks)
                            = (ecdsa_Public priv, None)"
    unfolding public_pem_roundtrip_def by blast
  then have pem: "PemToECDSAKey L (PublicBytes ks) = (Some (ecdsa_PublicKey priv), None)"
    by (simp add: PemToECDSAKey_def ecdsa_Public_def)
  from gen sv load pem ver pw show ?thesis
    by auto
qed

theorem generate_load_roundtrip_witness:
  "pem_roundtrip toyLib \<and> decrypt_encrypt toyLib \<and> pkcs8_roundtrip toyLib
   \<and> public_pem_roundtrip toyLib \<and> ecdsa_signer_correct toyLib
   \<and> fst (fst (GenerateKeyPair toyLib toy_pf [] [] ()))
     = Some \<lparr>PrivateBytes = toy_bundle ''ec'' ''correct-horse'', PublicBytes = ''pub-ec'',
             password = ''correct-horse''\<rparr>
   \<and> fst (fst (toy_pf True ())) = ''correct-horse''
   \<and> LoadPrivateKey toyLib (toy_bundle ''ec'' ''correct-horse'') ''correct-horse''
       = Return (Some (ECDSASignerVerifier (Some toy_ec))) None
   \<and> PemToECDSAKey toyLib ''pub-ec'' = (Some (ecdsa_PublicKey toy_ec), None)
   \<and> ecdsa_SignMessage toyLib toy_ec [] ''hello'' = (''xyy:hello'', None)
   \<and> ecdsa_VerifySignature toyLib (ecdsa_PublicKey toy_ec) SHA256 ''xyy:hello'' ''hello'' = None"
proof -
  let ?ks = "\<lparr>PrivateBytes = toy_bundle ''ec'' ''correct-horse'', PublicBytes = ''pub-ec'',
             password = ''correct-horse''\<rparr>"
  have g: "fst (fst (GenerateKeyPair toyLib toy_pf [] [] ())) = Some ?ks"
    by (simp add: toy_GenerateKeyPair)
  have pw: "fst (fst (toy_pf True ())) = ''correct-horse''"
    by (simp add: toy_pf_def)
  have sg: "ecdsa_SignMessage toyLib toy_ec [] ''hello'' = (''xyy:hello'', None)"
    by (simp add: toyLib_def toy_tag_def toy_ec_def numeral_2_eq_2)
  from generate_load_roundtrip [OF toyLib_pem_roundtrip toyLib_decrypt_encrypt
      toyLib_pkcs8_roundtrip toyLib_public_pem_roundtrip toyLib_ecdsa_signer_correct g]
  obtain priv sv where
    gen: "GeneratePrivateKey toyLib [] = (priv, None)"
    and sv: "signature_LoadECDSASignerVerifier toyLib priv SHA256 = (Some sv, None)"
    and load: "LoadPrivateKey toyLib (PrivateBytes ?ks) (fst (fst (toy_pf True ())))
             = Return (Some (ECDSASignerVerifier (Some sv))) None"
    and pem: "PemToECDSAKey toyLib (PublicBytes ?ks) = (Some (ecdsa_PublicKey priv), None)"
    and ver: "\<forall>rnd' msg sig. ecdsa_SignMessage toyLib sv rnd' msg = (sig, None) \<longrightarrow>
               ecdsa_VerifySignature toyLib (ecdsa_PublicKey priv) SHA256 sig msg = None"
    by blast
  from gen have priv: "priv = toy_ec"
    by (simp add: toy_Generate)
  from sv have s: "sv = toy_ec"
    by (simp add: toyLib_def priv)
  from ver sg have v: "ecdsa_VerifySignature toyLib (ecdsa_PublicKey toy_ec) SHA256
                         ''xyy:hello'' ''hello'' = None"
    unfolding priv s by blast
  from load pem have "LoadPrivateKey toyLib (toy_bundle ''ec'' ''correct-horse'') ''correct-horse''
       = Return (Some (ECDSASignerVerifier (Some toy_ec))) None"
    and "PemToECDSAKey toyLib ''pub-ec'' = (Some (ecdsa_PublicKey toy_ec), None)"
    by (simp_all add: pw priv s)
  with g pw sg v show ?thesis
    by (simp add: toyLib_pem_roundtrip toyLib_decrypt_encrypt toyLib_pkcs8_roundtrip
        toyLib_public_pem_roundtrip toyLib_ecdsa_signer_correct)
qed

text \<open>The loaders and the importer look at the first decoded block only.\<close>

lemma loaders_depend_on_first_block:
  assumes "fst (pem_Decode L key') = fst (pem_Decode L key)"
  shows "LoadECDSAPrivateKey L key' pass = LoadECDSAPrivateKey L key pass"
    and "LoadRSAPrivateKey L key' pass = LoadRSAPrivateKey L key pass"
    and "LoadPrivateKey L key' pass = LoadPrivateKey L key pass"
proof -
  show ec: "LoadECDSAPrivateKey L key' pass = LoadECDSAPrivateKey L key pass"
    by (simp add: LoadECDSAPrivateKey_def assms)
  show rsa: "LoadRSAPrivateKey L key' pass = LoadRSAPrivateKey L key pass"
    by (simp add: LoadRSAPrivateKey_def assms)
  show "LoadPrivateKey L key' pass = LoadPrivateKey L key pass"
    unfolding LoadPrivateKey_def assms ec rsa ..
qed

text \<open>
  Claim C9. The claim says that bytes after a valid block never change what the loader
  and the importer do. Both drop the bytes that the decoder leaves over, but the decoder
  reads the whole input: a block without its final newline is decoded alone and is no
  block when bytes follow its last line, so the same calls fail with the format error.
\<close>

theorem bytes_after_block_without_newline_rejected:
  "fst (pem_Decode strictLib (toy_bundle ''ec'' ''correct-horse''))
     = Some \<lparr>Type = PrivateKeyPemType, Headers = [],
             Bytes = fst (toy_Encrypt [] ''ec'' ''correct-horse'')\<rparr>
   \<and> LoadPrivateKey strictLib (toy_bundle ''ec'' ''correct-horse'') ''correct-horse''
       = Return (Some (ECDSASignerVerifier (Some toy_ec))) None
   \<and> LoadPrivateKey strictLib (toy_bundle ''ec'' ''correct-horse'' @ ''trailing'') ''correct-horse''
       = Return None (Some (errors_New ''invalid pem block''))
   \<and> os_ReadFile strictLib (filepath_Clean strictLib ''ec.pem'')
       = (toy_pem_EncodeToMemory \<lparr>Type = ECPrivateKeyPemType, Headers = [], Bytes = ''ec1''\<rparr>, None)
   \<and> os_ReadFile strictLib (filepath_Clean strictLib ''ec-more.pem'')
       = (toy_pem_EncodeToMemory \<lparr>Type = ECPrivateKeyPemType, Headers = [], Bytes = ''ec1''\<rparr>
            @ ''trailing'', None)
   \<and> ImportKeyPair strictLib ''ec.pem'' toy_pf [] ()
       = ((Some \<lparr>PrivateBytes = strict_bundle, PublicBytes = ''pub-ec'',
                  password = ''correct-horse''\<rparr>, None), ())
   \<and> ImportKeyPair strictLib ''ec-more.pem'' toy_pf [] ()
       = ((None, Some (errors_New ''invalid pem block'')), ())"
proof -
  let ?b = "toy_pem_EncodeToMemory \<lparr>Type = ECPrivateKeyPemType, Headers = [], Bytes = ''ec1''\<rparr>"
  have dcr: "encrypted_Decrypt strictLib (fst (toy_Encrypt [] ''ec'' ''correct-horse''))
               ''correct-horse'' = (''ec'', None)"
    by (simp add: strict_Load_fields toy_bundle_Decrypt)
  have ec: "LoadECDSAPrivateKey strictLib (toy_bundle ''ec'' ''correct-horse'') ''correct-horse''
              = Return (Some toy_ec) None"
    by (simp add: LoadECDSAPrivateKey_def strict_toy_bundle_Decode dcr strict_Load_fields(2,3))
  have l1: "LoadPrivateKey strictLib (toy_bundle ''ec'' ''correct-horse'') ''correct-horse''
       = Return (Some (ECDSASignerVerifier (Some toy_ec))) None"
    by (simp add: LoadPrivateKey_def strict_toy_bundle_Decode dcr strict_Load_fields(2) ec)
  have l2: "LoadPrivateKey strictLib (toy_bundle ''ec'' ''correct-horse'' @ ''trailing'')
              ''correct-horse'' = Return None (Some (errors_New ''invalid pem block''))"
    by (simp add: LoadPrivateKey_def strict_toy_bundle_trailing)
  have f1: "os_ReadFile strictLib (filepath_Clean strictLib ''ec.pem'') = (?b, None)"
    by (simp add: strictLib_def toyLib_def strict_ReadFile_def toy_ReadFile_def)
  have f2: "os_ReadFile strictLib (filepath_Clean strictLib ''ec-more.pem'')
              = (?b @ ''trailing'', None)"
    by (simp add: strictLib_def toyLib_def strict_ReadFile_def toy_ReadFile_def)
  have d1: "fst (pem_Decode strictLib ?b)
              = Some \<lparr>Type = ECPrivateKeyPemType, Headers = [], Bytes = ''ec1''\<rparr>"
    by (simp add: strictLib_def strict_Decode_bare)
  have d2: "fst (pem_Decode strictLib (?b @ ''trailing'')) = None"
    by (simp add: strictLib_def strict_Decode_bare_trailing)
  have pe: "x509_ParseECPrivateKey strictLib ''ec1'' = (toy_ec, None)"
    by (simp add: strictLib_def toyLib_def)
  have i1: "ImportKeyPair strictLib ''ec.pem'' toy_pf [] ()
       = ((Some \<lparr>PrivateBytes = strict_bundle, PublicBytes = ''pub-ec'',
                  password = ''correct-horse''\<rparr>, None), ())"
    using pem_types_distinct(3)
    by (simp add: ImportKeyPair_def f1 d1 pe strict_MarshallKeyPair_ec)
  have i2: "ImportKeyPair strictLib ''ec-more.pem'' toy_pf [] ()
       = ((None, Some (errors_New ''invalid pem block'')), ())"
    by (simp add: ImportKeyPair_def f2 d2)
  from strict_toy_bundle_Decode l1 l2 f1 f2 i1 i2 show ?thesis
    by simp
qed

text \<open>
  Claim C9, amended. Whenever the decoder finds the same first block in a byte string
  followed by further bytes as in the byte string alone, the three loaders return on the
  longer input what they return on the shorter, and so does \<^verbatim>\<open>ImportKeyPair\<close> on
  files with these contents: what the decoder leaves over is dropped.
\<close>

theorem leftover_bytes_discarded:
  assumes "fst (pem_Decode L (b @ t)) = fst (pem_Decode L b)"
  shows "LoadPrivateKey L (b @ t) pass = LoadPrivateKey L b pass
       \<and> LoadECDSAPrivateKey L (b @ t) pass = LoadECDSAPrivateKey L b pass
       \<and> LoadRSAPrivateKey L (b @ t) pass = LoadRSAPrivateKey L b pass
       \<and> (os_ReadFile L (filepath_Clean L keyPath) = (b, None)
          \<and> os_ReadFile L (filepath_Clean L keyPath') = (b @ t, None) \<longrightarrow>
          ImportKeyPair L keyPath' pf rnd w = ImportKeyPair L keyPath pf rnd w)"
proof -
  have "ImportKeyPair L keyPath' pf rnd w = ImportKeyPair L keyPath pf rnd w"
    if "os_ReadFile L (filepath_Clean L keyPath) = (b, None)"
      and "os_ReadFile L (filepath_Clean L keyPath') = (b @ t, None)"
    by (simp add: ImportKeyPair_def that assms)
  with loaders_depend_on_first_block [OF assms] show ?thesis
    by simp
qed

theorem leftover_bytes_discarded_witness:
  "fst (pem_Decode strictLib (strict_bundle @ ''trailing'')) = fst (pem_Decode strictLib strict_bundle)
   \<and> LoadPrivateKey strictLib (strict_bundle @ ''trailing'') ''correct-horse''
       = LoadPrivateKey strictLib strict_bundle ''correct-horse''
   \<and> os_ReadFile strictLib (filepath_Clean strictLib ''ec-newline.pem'')
       = (strict_pem_EncodeToMemory
            \<lparr>Type = ECPrivateKeyPemType, Headers = [], Bytes = ''ec1''\<rparr>, None)
   \<and> os_ReadFile strictLib (filepath_Clean strictLib ''ec-newline-more.pem'')
       = (strict_pem_EncodeToMemory
            \<lparr>Type = ECPrivateKeyPemType, Headers = [], Bytes = ''ec1''\<rparr> @ ''trailing'', None)
   \<and> ImportKeyPair strictLib ''ec-newline-more.pem'' toy_pf [] ()
       = ImportKeyPair strictLib ''ec-newline.pem'' toy_pf [] ()"
proof -
  let ?b = "strict_pem_EncodeToMemory \<lparr>Type = ECPrivateKeyPemType, Headers = [], Bytes = ''ec1''\<rparr>"
  have k: "fst (pem_Decode strictLib (strict_bundle @ ''trailing''))
             = fst (pem_Decode strictLib strict_bundle)"
    using strict_bundle_Decode [of "''trailing''"] strict_bundle_Decode [of "[]"] by simp
  have f: "fst (pem_Decode strictLib (?b @ ''trailing'')) = fst (pem_Decode strictLib ?b)"
    using strict_Decode_Encode [of _ "''trailing''"] strict_Decode_Encode [of _ "[]"]
    by (simp add: strictLib_def)
  have files: "os_ReadFile strictLib (filepath_Clean strictLib ''ec-newline.pem'') = (?b, None)"
    "os_ReadFile strictLib (filepath_Clean strictLib ''ec-newline-more.pem'')
       = (?b @ ''trailing'', None)"
    by (simp_all add: strictLib_def toyLib_def strict_ReadFile_def)
  have c1: "LoadPrivateKey strictLib (strict_bundle @ ''trailing'') ''correct-horse''
            = LoadPrivateKey strictLib strict_bundle ''correct-horse''"
    using leftover_bytes_discarded [OF k, where pass = "''correct-horse''"]
    by (rule conjunct1)
  have c2: "ImportKeyPair strictLib ''ec-newline-more.pem'' toy_pf [] ()
            = ImportKeyPair strictLib ''ec-newline.pem'' toy_pf [] ()"
    using leftover_bytes_discarded [OF f, where keyPath = "''ec-newline.pem''"
        and keyPath' = "''ec-newline-more.pem''" and pf = toy_pf and rnd = "[]" and w = "()"] files
    by simp
  from k files c1 c2 show ?thesis
    by simp
qed

end
